theory Spec2Isabelle
  imports Complex_Main
begin

text \<open>
  A shallow embedding of the SOL outflow watcher.  From index.js: the truncating
  classifier, the two transfer extractors, the cursor functions and the body of the
  polling loop, split into the ingest of new signatures and the evaluation of the window.
  From the per-destination variant: the classifier and the loop over the transfers of a
  window transaction.  From the exact-delta variant: the exact classifier and formatter.
  Exceptions are values (\<open>Inl\<close>), the state is passed explicitly, and what the RPC
  endpoint and the webhook answer is an argument of each cycle.
\<close>

section \<open>Numbers\<close>

text \<open>
  Lamport amounts are JavaScript numbers.  The model keeps the integral finite values and
  the three non-finite ones, so that every \<^verbatim>\<open>Number.isFinite\<close> guard of the source is
  a real branch.  Fractional doubles and integers beyond \<open>2^53\<close> are outside the model:
  lamports are whole, and on whole numbers below \<open>2^53\<close> the double operations used by
  the source (\<^verbatim>\<open>Math.abs\<close>, \<^verbatim>\<open>Math.floor(x / c)\<close>, \<^verbatim>\<open>%\<close>, \<^verbatim>\<open>+\<close>, \<^verbatim>\<open>-\<close>) are exact.
\<close>

datatype jsnum = Fin int | NaN | PosInf | NegInf

definition LAMPORTS_PER_SOL :: int where
  "LAMPORTS_PER_SOL = 1000000000"

fun math_abs :: "jsnum \<Rightarrow> jsnum" where
  "math_abs (Fin i) = Fin \<bar>i\<bar>"
| "math_abs NaN = NaN"
| "math_abs PosInf = PosInf"
| "math_abs NegInf = PosInf"

fun is_finite :: "jsnum \<Rightarrow> bool" where
  "is_finite (Fin i) = True"
| "is_finite NaN = False"
| "is_finite PosInf = False"
| "is_finite NegInf = False"

text \<open>\<^verbatim>\<open>a <= b\<close> and \<^verbatim>\<open>a >= b\<close> on numbers: every comparison with NaN is false.\<close>

fun num_le :: "jsnum \<Rightarrow> jsnum \<Rightarrow> bool" where
  "num_le (Fin a) (Fin b) = (a \<le> b)"
| "num_le (Fin a) PosInf = True"
| "num_le (Fin a) NegInf = False"
| "num_le NegInf (Fin b) = True"
| "num_le NegInf NegInf = True"
| "num_le NegInf PosInf = True"
| "num_le PosInf (Fin b) = False"
| "num_le PosInf PosInf = True"
| "num_le PosInf NegInf = False"
| "num_le NaN b = False"
| "num_le a NaN = False"

text \<open>A number is falsy when it is \<open>0\<close> or NaN.\<close>

fun num_truthy :: "jsnum \<Rightarrow> bool" where
  "num_truthy (Fin i) = (i \<noteq> 0)"
| "num_truthy NaN = False"
| "num_truthy PosInf = True"
| "num_truthy NegInf = True"

text \<open>\<^verbatim>\<open>Math.floor(x / c)\<close> for a positive integer constant \<open>c\<close>.\<close>

fun floor_div :: "jsnum \<Rightarrow> int \<Rightarrow> jsnum" where
  "floor_div (Fin i) c = Fin (i div c)"
| "floor_div NaN c = NaN"
| "floor_div PosInf c = PosInf"
| "floor_div NegInf c = NegInf"

text \<open>\<^verbatim>\<open>x % c\<close> for a positive integer constant \<open>c\<close>: the sign follows the dividend.\<close>

fun num_rem :: "jsnum \<Rightarrow> int \<Rightarrow> jsnum" where
  "num_rem (Fin i) c = Fin (sgn i * (\<bar>i\<bar> mod c))"
| "num_rem NaN c = NaN"
| "num_rem PosInf c = NaN"
| "num_rem NegInf c = NaN"

text \<open>\<^verbatim>\<open>a + b\<close>, \<^verbatim>\<open>a - b\<close> and \<^verbatim>\<open>-a\<close>.\<close>

fun num_neg :: "jsnum \<Rightarrow> jsnum" where
  "num_neg (Fin i) = Fin (- i)"
| "num_neg NaN = NaN"
| "num_neg PosInf = NegInf"
| "num_neg NegInf = PosInf"

fun num_add :: "jsnum \<Rightarrow> jsnum \<Rightarrow> jsnum" where
  "num_add (Fin a) (Fin b) = Fin (a + b)"
| "num_add (Fin a) PosInf = PosInf"
| "num_add (Fin a) NegInf = NegInf"
| "num_add PosInf (Fin b) = PosInf"
| "num_add PosInf PosInf = PosInf"
| "num_add PosInf NegInf = NaN"
| "num_add NegInf (Fin b) = NegInf"
| "num_add NegInf NegInf = NegInf"
| "num_add NegInf PosInf = NaN"
| "num_add NaN b = NaN"
| "num_add a NaN = NaN"

definition num_sub :: "jsnum \<Rightarrow> jsnum \<Rightarrow> jsnum" where
  "num_sub a b = num_add a (num_neg b)"

subsection \<open>Printing\<close>

fun dec_digits :: "nat \<Rightarrow> string" where
  "dec_digits n =
     (if n < 10 then [''0123456789'' ! n]
      else dec_digits (n div 10) @ [''0123456789'' ! (n mod 10)])"

text \<open>\<^verbatim>\<open>String(x)\<close> on a number (below \<open>10^21\<close>, where JavaScript prints plain decimals).\<close>

fun num_to_string :: "jsnum \<Rightarrow> string" where
  "num_to_string (Fin i) = (if i < 0 then ''-'' @ dec_digits (nat (- i)) else dec_digits (nat i))"
| "num_to_string NaN = ''NaN''"
| "num_to_string PosInf = ''Infinity''"
| "num_to_string NegInf = ''-Infinity''"

declare dec_digits.simps [simp del]

definition padStart :: "nat \<Rightarrow> char \<Rightarrow> string \<Rightarrow> string" where
  "padStart n c s = replicate (n - length s) c @ s"

section \<open>Configuration\<close>

text \<open>
  The values read from the environment.  \<open>MIN_SOL\<close> and \<open>MAX_SOL\<close> are decimal
  fractions, kept as rationals; the counts are numbers, kept as integers.
\<close>

record config =
  MIN_SOL :: rat
  MAX_SOL :: rat
  WINDOW_OUTFLOWS :: int
  REQUIRED_MATCH :: int
  PREVIEW_DEST_LIMIT :: int

section \<open>Pattern classifier\<close>

subsection \<open>Truncating policy (index.js)\<close>

definition scaled_4dpCut :: "jsnum \<Rightarrow> jsnum" where
  "scaled_4dpCut lamports = floor_div (math_abs lamports) 100000"

definition lamportsToSol4String :: "jsnum \<Rightarrow> string" where
  "lamportsToSol4String lamports =
     (let scaled = scaled_4dpCut lamports;
          intPart = floor_div scaled 10000;
          fracPart = num_rem scaled 10000
      in num_to_string intPart @ ''.'' @ padStart 4 (CHR ''0'') (num_to_string fracPart))"

definition isFiveDigitsLamports_4dpCut :: "jsnum \<Rightarrow> bool" where
  "isFiveDigitsLamports_4dpCut lamports =
     (let scaled = scaled_4dpCut lamports in num_le scaled (Fin 99999))"

definition inSolRangeLamports :: "config \<Rightarrow> jsnum \<Rightarrow> bool" where
  "inSolRangeLamports cfg lamports =
     (case math_abs lamports of
        Fin a \<Rightarrow> MIN_SOL cfg \<le> of_int a / of_int LAMPORTS_PER_SOL
               \<and> of_int a / of_int LAMPORTS_PER_SOL \<le> MAX_SOL cfg
      | NaN \<Rightarrow> False
      | PosInf \<Rightarrow> False
      | NegInf \<Rightarrow> False)"

subsection \<open>Exact policy (the exact-delta variant)\<close>

definition LAMPORTS_PER_SOL_4DP :: int where
  "LAMPORTS_PER_SOL_4DP = 100000"

text \<open>\<^verbatim>\<open>Math.abs(Number(deltaLamports || 0))\<close> on a number.\<close>

definition abs_or_zero :: "jsnum \<Rightarrow> jsnum" where
  "abs_or_zero d = math_abs (if num_truthy d then d else Fin 0)"

text \<open>
  \<^verbatim>\<open>v / LAMPORTS_PER_SOL_4DP\<close> is only reached after the remainder test, where the
  quotient is a whole number and equals the floored one.
\<close>

definition lamportsToSol4ExactString :: "jsnum \<Rightarrow> string option" where
  "lamportsToSol4ExactString deltaLamports =
     (let v = abs_or_zero deltaLamports in
      if \<not> is_finite v \<or> num_le v (Fin 0) then None
      else if num_rem v LAMPORTS_PER_SOL_4DP \<noteq> Fin 0 then None
      else
        let scaled = floor_div v LAMPORTS_PER_SOL_4DP;
            intPart = floor_div scaled 10000;
            fracPart = num_rem scaled 10000
        in Some (num_to_string intPart @ ''.'' @ padStart 4 (CHR ''0'') (num_to_string fracPart)))"

definition isFiveDigitsByDestDeltaExact :: "jsnum \<Rightarrow> bool" where
  "isFiveDigitsByDestDeltaExact deltaLamports =
     (let v = abs_or_zero deltaLamports in
      if \<not> is_finite v \<or> num_le v (Fin 0) then False
      else if num_rem v LAMPORTS_PER_SOL_4DP \<noteq> Fin 0 then False
      else
        let scaled = floor_div v LAMPORTS_PER_SOL_4DP
        in num_le (Fin 0) scaled \<and> num_le scaled (Fin 99999))"

section \<open>JavaScript values\<close>

text \<open>
  The values a transaction object is built from: JSON data, plus the \<^verbatim>\<open>PublicKey\<close>
  objects of the RPC client.  \<open>PubKey s\<close> is a key whose \<^verbatim>\<open>toBase58()\<close> is \<open>s\<close>, and
  \<open>ToBase58 s\<close> is that bound method, the only function value that occurs.  Objects are
  key-value lists, read by the first binding of a key.
\<close>

datatype jsval =
    Undefined
  | Null
  | Bool bool
  | Num jsnum
  | Str string
  | Arr "jsval list"
  | Obj "(string \<times> jsval) list"
  | PubKey string
  | ToBase58 string

datatype js_error = TypeError | RpcError | DecodeError

fun truthy :: "jsval \<Rightarrow> bool" where
  "truthy Undefined = False"
| "truthy Null = False"
| "truthy (Bool b) = b"
| "truthy (Num n) = num_truthy n"
| "truthy (Str s) = (s \<noteq> [])"
| "truthy (Arr xs) = True"
| "truthy (Obj kvs) = True"
| "truthy (PubKey s) = True"
| "truthy (ToBase58 s) = True"

fun nullish :: "jsval \<Rightarrow> bool" where
  "nullish Undefined = True"
| "nullish Null = True"
| "nullish v = False"

fun is_str :: "jsval \<Rightarrow> bool" where
  "is_str (Str s) = True"
| "is_str v = False"

text \<open>\<^verbatim>\<open>a || b\<close>\<close>

definition js_or :: "jsval \<Rightarrow> jsval \<Rightarrow> jsval" where
  "js_or a b = (if truthy a then a else b)"

text \<open>
  Reading property \<open>p\<close> of a value that is neither null nor undefined.  Of the inherited
  properties only \<^verbatim>\<open>length\<close> and \<^verbatim>\<open>toBase58\<close> are among the names the source reads.
\<close>

fun get :: "jsval \<Rightarrow> string \<Rightarrow> jsval" where
  "get (Obj kvs) p = (case map_of kvs p of Some v \<Rightarrow> v | None \<Rightarrow> Undefined)"
| "get (Arr xs) p = (if p = ''length'' then Num (Fin (int (length xs))) else Undefined)"
| "get (Str s) p = (if p = ''length'' then Num (Fin (int (length s))) else Undefined)"
| "get (PubKey s) p = (if p = ''toBase58'' then ToBase58 s else Undefined)"
| "get v p = Undefined"

text \<open>\<^verbatim>\<open>v.p\<close> raises on null and undefined; \<^verbatim>\<open>v?.p\<close> yields undefined there.\<close>

definition member :: "jsval \<Rightarrow> string \<Rightarrow> js_error + jsval" where
  "member v p = (if nullish v then Inl TypeError else Inr (get v p))"

definition opt_member :: "jsval \<Rightarrow> string \<Rightarrow> jsval" where
  "opt_member v p = (if nullish v then Undefined else get v p)"

text \<open>\<^verbatim>\<open>f()\<close>: calling anything but a function raises.\<close>

fun call0 :: "jsval \<Rightarrow> js_error + jsval" where
  "call0 (ToBase58 s) = Inr (Str s)"
| "call0 v = Inl TypeError"

text \<open>
  \<^verbatim>\<open>for (const x of v)\<close> and \<^verbatim>\<open>...v\<close>: arrays yield their elements, strings their
  characters, everything else is not iterable.
\<close>

fun iter :: "jsval \<Rightarrow> js_error + jsval list" where
  "iter (Arr xs) = Inr xs"
| "iter (Str s) = Inr (map (\<lambda>c. Str [c]) s)"
| "iter v = Inl TypeError"

text \<open>\<^verbatim>\<open>xs[i]\<close> on an array built by the source, with a natural number index.\<close>

definition nth_or_undefined :: "jsval list \<Rightarrow> nat \<Rightarrow> jsval" where
  "nth_or_undefined xs i = (if i < length xs then xs ! i else Undefined)"

text \<open>\<^verbatim>\<open>v?.[i]\<close> for a natural number \<open>i\<close>.\<close>

definition opt_elem :: "jsval \<Rightarrow> nat \<Rightarrow> jsval" where
  "opt_elem v i =
     (case v of
        Arr xs \<Rightarrow> nth_or_undefined xs i
      | Str s \<Rightarrow> (if i < length s then Str [s ! i] else Undefined)
      | Obj kvs \<Rightarrow> get (Obj kvs) (dec_digits i)
      | _ \<Rightarrow> Undefined)"

section \<open>Library functions taken as parameters\<close>

text \<open>
  The built-in conversions and the decoders of the RPC client library are not part of
  the repository.  Each is a parameter; a decoder that throws returns \<open>Inl\<close>.
\<close>

record ixlike =
  ix_keys :: "string list"
  ix_data :: "nat list"

record decoded_transfer =
  fromPubkey :: string
  toPubkey :: string
  tr_lamports :: jsnum

record externals =
  Number_of :: "jsval \<Rightarrow> jsnum"
  String_of :: "jsval \<Rightarrow> string"
  Buffer_from_base64 :: "jsval \<Rightarrow> js_error + nat list"
  bs58_decode :: "jsval \<Rightarrow> js_error + nat list"
  new_PublicKey :: "jsval \<Rightarrow> js_error + string"
  decodeInstructionType :: "ixlike \<Rightarrow> js_error + string"
  decodeTransfer :: "ixlike \<Rightarrow> js_error + decoded_transfer"
  decodeTransferWithSeed :: "ixlike \<Rightarrow> js_error + decoded_transfer"

text \<open>
  \<^verbatim>\<open>keys[v]\<close> with an index taken from the transaction.  The index is converted to a
  property key; the decimal spelling of a position selects that element and
  \<^verbatim>\<open>length\<close> the length.  The names of array methods are outside the model.
\<close>

definition property_key :: "externals \<Rightarrow> jsval \<Rightarrow> string" where
  "property_key ext v =
     (case v of Str s \<Rightarrow> s | Num n \<Rightarrow> num_to_string n | _ \<Rightarrow> String_of ext v)"

definition index_by :: "externals \<Rightarrow> jsval list \<Rightarrow> jsval \<Rightarrow> jsval" where
  "index_by ext xs v =
     (let key = property_key ext v
      in if key = ''length'' then Num (Fin (int (length xs)))
         else (case filter (\<lambda>i. dec_digits i = key) [0..<length xs] of
                 [] \<Rightarrow> Undefined
               | i # _ \<Rightarrow> xs ! i))"

text \<open>\<^verbatim>\<open>SystemProgram.programId.toBase58()\<close>\<close>

definition SYSTEM_PROGRAM_ID :: string where
  "SYSTEM_PROGRAM_ID = ''11111111111111111111111111111111''"

section \<open>Transfer extraction (index.js)\<close>

record transfer =
  to :: jsval
  lamports :: jsnum
  ttype :: jsval

subsection \<open>Structured path\<close>

definition handleParsedIx :: "externals \<Rightarrow> string \<Rightarrow> jsval \<Rightarrow> transfer option" where
  "handleParsedIx ext watchBase58 ix =
     (if \<not> truthy ix then None
      else
        let prog = js_or (get ix ''program'') (get ix ''programId'');
            parsed = get ix ''parsed''
        in if \<not> truthy parsed \<or> prog \<noteq> Str ''system'' then None
           else
             let info = js_or (get parsed ''info'') (Obj []);
                 type = js_or (get parsed ''type'') (Str '''');
                 source = js_or (js_or (js_or (get info ''source'') (get info ''from''))
                                       (get info ''authority'')) (get info ''funder'');
                 dest = js_or (get info ''destination'') (get info ''to'')
             in if \<not> truthy source \<or> \<not> truthy dest then None
                else if source \<noteq> Str watchBase58 then None
                else
                  let lamports = Number_of ext (js_or (get info ''lamports'') (Num (Fin 0)))
                  in if \<not> is_finite lamports \<or> num_le lamports (Fin 0) then None
                     else Some \<lparr>to = dest, lamports = lamports, ttype = type\<rparr>)"

text \<open>
  The loop over \<^verbatim>\<open>innerInstructions\<close>, shared by both paths: \<open>h\<close> is the handler, which
  pushes at most one transfer and does not raise.
\<close>

fun innerLoop :: "(jsval \<Rightarrow> transfer option) \<Rightarrow> jsval list \<Rightarrow> js_error + transfer list" where
  "innerLoop h [] = Inr []"
| "innerLoop h (innerItem # rest) =
     (case member innerItem ''instructions'' of
        Inl e \<Rightarrow> Inl e
      | Inr v \<Rightarrow>
          (case iter (js_or v (Arr [])) of
             Inl e \<Rightarrow> Inl e
           | Inr ixs \<Rightarrow>
               (case innerLoop h rest of
                  Inl e \<Rightarrow> Inl e
                | Inr out \<Rightarrow> Inr (List.map_filter h ixs @ out))))"

definition extractTransfersFromParsed ::
  "externals \<Rightarrow> jsval \<Rightarrow> string \<Rightarrow> js_error + transfer list" where
  "extractTransfersFromParsed ext parsedTx watchBase58 =
     (let outer = js_or (opt_member (opt_member (opt_member parsedTx ''transaction'') ''message'')
                           ''instructions'') (Arr [])
      in case iter outer of
           Inl e \<Rightarrow> Inl e
         | Inr ixs \<Rightarrow>
             let out1 = List.map_filter (handleParsedIx ext watchBase58) ixs;
                 inner = js_or (opt_member (opt_member parsedTx ''meta'') ''innerInstructions'')
                           (Arr [])
             in (case iter inner of
                   Inl e \<Rightarrow> Inl e
                 | Inr items \<Rightarrow>
                     (case innerLoop (handleParsedIx ext watchBase58) items of
                        Inl e \<Rightarrow> Inl e
                      | Inr out2 \<Rightarrow> Inr (out1 @ out2))))"

subsection \<open>Compiled-decode fallback\<close>

definition pubkeyToString :: "externals \<Rightarrow> jsval \<Rightarrow> js_error + jsval" where
  "pubkeyToString ext k =
     (if \<not> truthy k then Inr (Str '''')
      else if is_str k then Inr k
      else if truthy (opt_member k ''toBase58'') then call0 (get k ''toBase58'')
      else if truthy (opt_member k ''pubkey'') then
        (if is_str (get k ''pubkey'') then Inr (get k ''pubkey'')
         else call0 (get (get k ''pubkey'') ''toBase58''))
      else Inr (Str (String_of ext k)))"

text \<open>Running a raising conversion over a list stops at the first exception.\<close>

fun map_err :: "('a \<Rightarrow> js_error + 'b) \<Rightarrow> 'a list \<Rightarrow> js_error + 'b list" where
  "map_err f [] = Inr []"
| "map_err f (x # xs) =
     (case f x of
        Inl e \<Rightarrow> Inl e
      | Inr y \<Rightarrow> (case map_err f xs of Inl e \<Rightarrow> Inl e | Inr ys \<Rightarrow> Inr (y # ys)))"

text \<open>\<^verbatim>\<open>if (la?.f?.length) keys.push(...la.f)\<close>: the values spread into \<open>keys\<close>.\<close>

definition loadedKeys :: "jsval \<Rightarrow> string \<Rightarrow> js_error + jsval list" where
  "loadedKeys la f =
     (if truthy (opt_member (opt_member la f) ''length'') then iter (get la f) else Inr [])"

definition getAllAccountKeysFromTx :: "externals \<Rightarrow> jsval \<Rightarrow> js_error + jsval list" where
  "getAllAccountKeysFromTx ext tx =
     (let msg = opt_member (opt_member tx ''transaction'') ''message'';
          meta = opt_member tx ''meta'';
          ak = js_or (opt_member msg ''accountKeys'') (Arr [])
      in case iter ak of
           Inl e \<Rightarrow> Inl e
         | Inr ks \<Rightarrow>
             (case map_err (pubkeyToString ext) ks of
                Inl e \<Rightarrow> Inl e
              | Inr keys1 \<Rightarrow>
                  let la = opt_member meta ''loadedAddresses''
                  in (case loadedKeys la ''writable'' of
                        Inl e \<Rightarrow> Inl e
                      | Inr keys2 \<Rightarrow>
                          (case loadedKeys la ''readonly'' of
                             Inl e \<Rightarrow> Inl e
                           | Inr keys3 \<Rightarrow> Inr (keys1 @ keys2 @ keys3)))))"

definition decodeIxDataToBuffer :: "externals \<Rightarrow> jsval \<Rightarrow> nat list option" where
  "decodeIxDataToBuffer ext dataStr =
     (if \<not> truthy dataStr then None
      else
        let viaBs58 = (case bs58_decode ext dataStr of Inl e \<Rightarrow> None | Inr b \<Rightarrow> Some b)
        in case Buffer_from_base64 ext dataStr of
             Inl e \<Rightarrow> viaBs58
           | Inr b64 \<Rightarrow> (if length b64 > 0 then Some b64 else viaBs58))"

text \<open>What a decoded transfer contributes: nothing unless it leaves the watched account.\<close>

definition transferFromWatch :: "string \<Rightarrow> decoded_transfer \<Rightarrow> transfer option" where
  "transferFromWatch watchBase58 tr =
     (if fromPubkey tr = watchBase58
      then Some \<lparr>to = Str (toPubkey tr), lamports = tr_lamports tr, ttype = Undefined\<rparr>
      else None)"

text \<open>The body of \<^verbatim>\<open>handleCompiledIx\<close>, inside its \<^verbatim>\<open>try\<close>.\<close>

definition compiledIxBody ::
  "externals \<Rightarrow> jsval list \<Rightarrow> string \<Rightarrow> jsval \<Rightarrow> js_error + transfer option" where
  "compiledIxBody ext keys watchBase58 ix =
     (case member ix ''programIdIndex'' of
        Inl e \<Rightarrow> Inl e
      | Inr pidx \<Rightarrow>
          if index_by ext keys pidx \<noteq> Str SYSTEM_PROGRAM_ID then Inr None
          else
            (case decodeIxDataToBuffer ext (get ix ''data'') of
               None \<Rightarrow> Inr None
             | Some dataBuf \<Rightarrow>
                 (case js_or (get ix ''accounts'') (Arr []) of
                    Arr ais \<Rightarrow>
                      (case map_err (\<lambda>ai. new_PublicKey ext (index_by ext keys ai)) ais of
                         Inl e \<Rightarrow> Inl e
                       | Inr metas \<Rightarrow>
                           let txIxLike = \<lparr>ix_keys = metas, ix_data = dataBuf\<rparr>
                           in (case decodeInstructionType ext txIxLike of
                                 Inl e \<Rightarrow> Inl e
                               | Inr t \<Rightarrow>
                                   if t = ''Transfer'' then
                                     (case decodeTransfer ext txIxLike of
                                        Inl e \<Rightarrow> Inl e
                                      | Inr tr \<Rightarrow> Inr (transferFromWatch watchBase58 tr))
                                   else if t = ''TransferWithSeed'' then
                                     (case decodeTransferWithSeed ext txIxLike of
                                        Inl e \<Rightarrow> Inl e
                                      | Inr tr \<Rightarrow> Inr (transferFromWatch watchBase58 tr))
                                   else Inr None))
                  | _ \<Rightarrow> Inl TypeError)))"

text \<open>\<^verbatim>\<open>try { ... } catch {}\<close>: an exception in the body pushes nothing.\<close>

definition handleCompiledIx ::
  "externals \<Rightarrow> jsval list \<Rightarrow> string \<Rightarrow> jsval \<Rightarrow> transfer option" where
  "handleCompiledIx ext keys watchBase58 ix =
     (case compiledIxBody ext keys watchBase58 ix of Inl e \<Rightarrow> None | Inr r \<Rightarrow> r)"

record decoded_out =
  lamportsOut :: jsnum
  transfersOut :: "transfer list"

text \<open>
  Every push onto \<^verbatim>\<open>transfersOut\<close> comes with \<^verbatim>\<open>lamportsOut += tr.lamports\<close>, so the
  sum is the left fold of the pushed amounts from \<open>0\<close>.
\<close>

definition withSum :: "transfer list \<Rightarrow> decoded_out" where
  "withSum trs = \<lparr>lamportsOut = foldl num_add (Fin 0) (map lamports trs), transfersOut = trs\<rparr>"

definition decodeSystemTransfersOutWithSum ::
  "externals \<Rightarrow> jsval \<Rightarrow> string \<Rightarrow> js_error + decoded_out" where
  "decodeSystemTransfersOutWithSum ext tx watchBase58 =
     (let msg = opt_member (opt_member tx ''transaction'') ''message'';
          meta = opt_member tx ''meta''
      in if \<not> truthy msg \<or> \<not> truthy meta then Inr (withSum [])
         else
           (case getAllAccountKeysFromTx ext tx of
              Inl e \<Rightarrow> Inl e
            | Inr keys \<Rightarrow>
                let outer = js_or (get msg ''instructions'') (Arr []);
                    inner = js_or (get meta ''innerInstructions'') (Arr [])
                in (case iter outer of
                      Inl e \<Rightarrow> Inl e
                    | Inr ixs \<Rightarrow>
                        let out1 = List.map_filter (handleCompiledIx ext keys watchBase58) ixs
                        in (case iter inner of
                              Inl e \<Rightarrow> Inl e
                            | Inr items \<Rightarrow>
                                (case innerLoop (handleCompiledIx ext keys watchBase58) items of
                                   Inl e \<Rightarrow> Inl e
                                 | Inr out2 \<Rightarrow> Inr (withSum (out1 @ out2)))))))"

text \<open>\<^verbatim>\<open>keys.findIndex((k) => k === watchBase58)\<close>\<close>

fun findIndex :: "('a \<Rightarrow> bool) \<Rightarrow> 'a list \<Rightarrow> nat option" where
  "findIndex P [] = None"
| "findIndex P (x # xs) =
     (if P x then Some 0 else (case findIndex P xs of None \<Rightarrow> None | Some i \<Rightarrow> Some (Suc i)))"

definition getNetOutLamportsFallback :: "externals \<Rightarrow> jsval \<Rightarrow> string \<Rightarrow> js_error + jsnum" where
  "getNetOutLamportsFallback ext tx watchBase58 =
     (let meta = opt_member tx ''meta''
      in if \<not> truthy meta then Inr (Fin 0)
         else
           (case getAllAccountKeysFromTx ext tx of
              Inl e \<Rightarrow> Inl e
            | Inr keys \<Rightarrow>
                (case findIndex (\<lambda>k. k = Str watchBase58) keys of
                   None \<Rightarrow> Inr (Fin 0)
                 | Some idx \<Rightarrow>
                     (case (opt_elem (get meta ''preBalances'') idx,
                            opt_elem (get meta ''postBalances'') idx) of
                        (Num pre, Num post) \<Rightarrow>
                          let delta = num_sub post pre
                          in if num_le (Fin 0) delta then Inr (Fin 0) else Inr (num_neg delta)
                      | _ \<Rightarrow> Inr (Fin 0)))))"

section \<open>State, upstream replies and effects\<close>

record sig_item =
  signature :: string
  ts :: int

record outflow = sig_item +
  outLamports :: jsnum
  outflowSol4 :: string

record bot_state =
  anchorSig :: "string option"
  outflows :: "outflow list"
  lastAlertKey :: "string option"

record matched_line =
  sol4 :: string
  destWallet :: jsval

record alert =
  watch :: string
  matchedLines :: "matched_line list"
  destPreview :: "jsval list"
  windowSize :: nat
  inRangeCount :: nat
  fiveDigitsCount :: nat

text \<open>
  What the outside world answers during one cycle.  A signature query answers with the
  signatures newest first (of each entry only its \<^verbatim>\<open>signature\<close> string is kept), or
  fails; \<open>pollReply\<close> is the query bounded by the fetch limit, \<open>newestReply\<close> the query
  for the single newest signature.  A transaction fetch answers with a value (\<open>Null\<close>
  when the transaction is unknown) or fails, and answers alike each time it is asked for
  the same signature within the cycle.
  \<open>sendDiscordText\<close> is \<open>True\<close> when the webhook call returns and \<open>False\<close> when it
  throws.  \<open>now\<close> is \<^verbatim>\<open>Date.now()\<close>.
\<close>

record env =
  pollReply :: "js_error + string list"
  newestReply :: "js_error + string list"
  getTransaction :: "string \<Rightarrow> js_error + jsval"
  getParsedTransaction :: "string \<Rightarrow> js_error + jsval"
  sendDiscordText :: "alert \<Rightarrow> bool"
  now :: int

text \<open>
  The effects of a cycle in the order they happen: \<open>Saved s\<close> is a call of
  \<^verbatim>\<open>saveState\<close> (which swallows a failing write) with the state \<open>s\<close>, \<open>Fetched sig\<close> a
  transaction taken up by the ingest loop, \<open>Dispatched a ok\<close> one call of the webhook.
\<close>

datatype event = Saved bot_state | Fetched string | Dispatched alert bool

fun is_dispatch :: "event \<Rightarrow> bool" where
  "is_dispatch (Dispatched a ok) = True"
| "is_dispatch e = False"

text \<open>\<^verbatim>\<open>!x\<close> on a value that is a string or null.\<close>

fun sig_truthy :: "string option \<Rightarrow> bool" where
  "sig_truthy None = False"
| "sig_truthy (Some s) = (s \<noteq> [])"

fun join :: "string \<Rightarrow> string list \<Rightarrow> string" where
  "join sep [] = []"
| "join sep [x] = x"
| "join sep (x # y # zs) = x @ sep @ join sep (y # zs)"

definition makeAlertKey :: "'a sig_item_scheme list \<Rightarrow> string" where
  "makeAlertKey window = join ''|'' (map signature window)"

text \<open>\<^verbatim>\<open>xs.slice(0, n)\<close>: a negative end counts from the end of the array.\<close>

definition js_slice0 :: "int \<Rightarrow> 'a list \<Rightarrow> 'a list" where
  "js_slice0 n xs =
     (if n < 0 then take (nat (max (int (length xs) + n) 0)) xs else take (nat n) xs)"

section \<open>Cursor tracker\<close>

definition fetchNewestSignature :: "js_error + string list \<Rightarrow> js_error + string option" where
  "fetchNewestSignature reply =
     (case reply of
        Inl e \<Rightarrow> Inl e
      | Inr sigs \<Rightarrow>
          Inr (case sigs of [] \<Rightarrow> None | s # rest \<Rightarrow> if s = [] then None else Some s))"

definition fetchNewSignatures ::
  "js_error + string list \<Rightarrow> string option \<Rightarrow> js_error + string list" where
  "fetchNewSignatures reply anchor =
     (case reply of
        Inl e \<Rightarrow> Inl e
      | Inr sigs \<Rightarrow>
          if sigs = [] then Inr []
          else if \<not> sig_truthy anchor then Inr []
          else Inr (takeWhile (\<lambda>s. Some s \<noteq> anchor) sigs))"

section \<open>The polling loop (index.js)\<close>

subsection \<open>Ingest\<close>

text \<open>
  The classification of one new signature: \<open>Inr (Some n)\<close> is an outflow of \<open>n\<close>
  lamports, \<open>Inr None\<close> the \<^verbatim>\<open>continue\<close>, \<open>Inl e\<close> an exception, which leaves the loop.
\<close>

definition txOutLamports :: "externals \<Rightarrow> string \<Rightarrow> env \<Rightarrow> string \<Rightarrow> js_error + jsnum option" where
  "txOutLamports ext w en sig =
     (case getTransaction en sig of
        Inl e \<Rightarrow> Inl e
      | Inr tx \<Rightarrow>
          (case decodeSystemTransfersOutWithSum ext tx w of
             Inl e \<Rightarrow> Inl e
           | Inr d \<Rightarrow>
               (case (if \<not> num_truthy (lamportsOut d) \<or> num_le (lamportsOut d) (Fin 0)
                      then getNetOutLamportsFallback ext tx w
                      else Inr (lamportsOut d)) of
                  Inl e \<Rightarrow> Inl e
                | Inr n \<Rightarrow>
                    if \<not> num_truthy n \<or> num_le n (Fin 0) then Inr None else Inr (Some n))))"

text \<open>\<^verbatim>\<open>unshift\<close>, then the trim to the capacity.\<close>

definition insertOutflow :: "config \<Rightarrow> 'a list \<Rightarrow> 'a \<Rightarrow> 'a list" where
  "insertOutflow cfg window r =
     (let w = r # window
      in if int (length w) > WINDOW_OUTFLOWS cfg then js_slice0 (WINDOW_OUTFLOWS cfg) w else w)"

definition newOutflow :: "env \<Rightarrow> string \<Rightarrow> jsnum \<Rightarrow> outflow" where
  "newOutflow en sig n =
     \<lparr>signature = sig, ts = now en, outLamports = n, outflowSol4 = lamportsToSol4String n\<rparr>"

fun ingest ::
  "config \<Rightarrow> externals \<Rightarrow> string \<Rightarrow> env \<Rightarrow> string list \<Rightarrow> bot_state
     \<Rightarrow> bot_state \<times> event list \<times> js_error option" where
  "ingest cfg ext w en [] s = (s, [], None)"
| "ingest cfg ext w en (sig # rest) s =
     (case txOutLamports ext w en sig of
        Inl e \<Rightarrow> (s, [Fetched sig], Some e)
      | Inr None \<Rightarrow>
          (case ingest cfg ext w en rest s of
             (s', evs, err) \<Rightarrow> (s', Fetched sig # evs, err))
      | Inr (Some n) \<Rightarrow>
          (case ingest cfg ext w en rest
                  (s\<lparr>outflows := insertOutflow cfg (outflows s) (newOutflow en sig n)\<rparr>) of
             (s', evs, err) \<Rightarrow> (s', Fetched sig # evs, err)))"

subsection \<open>Matched destination wallets\<close>

text \<open>The transfers of a matched transaction: the structured path first, then the fallback.\<close>

definition transfersForMatch :: "externals \<Rightarrow> string \<Rightarrow> env \<Rightarrow> string \<Rightarrow> transfer list" where
  "transfersForMatch ext w en sig =
     (let transfers =
            (case getParsedTransaction en sig of
               Inl e \<Rightarrow> []
             | Inr ptx \<Rightarrow>
                 if truthy ptx then
                   (case extractTransfersFromParsed ext ptx w of Inl e \<Rightarrow> [] | Inr trs \<Rightarrow> trs)
                 else [])
      in if transfers = [] then
           (case getTransaction en sig of
              Inl e \<Rightarrow> transfers
            | Inr tx \<Rightarrow>
                (case decodeSystemTransfersOutWithSum ext tx w of
                   Inl e \<Rightarrow> transfers
                 | Inr d \<Rightarrow> transfersOut d))
         else transfers)"

definition qualifies :: "config \<Rightarrow> transfer \<Rightarrow> bool" where
  "qualifies cfg t =
     (truthy (to t) \<and> num_truthy (lamports t)
      \<and> inSolRangeLamports cfg (lamports t) \<and> isFiveDigitsLamports_4dpCut (lamports t))"

definition lineOf :: "transfer \<Rightarrow> matched_line" where
  "lineOf t = \<lparr>sol4 = lamportsToSol4String (lamports t), destWallet = to t\<rparr>"

definition matchedLinesOf :: "config \<Rightarrow> transfer list \<Rightarrow> matched_line list" where
  "matchedLinesOf cfg transfers = map lineOf (filter (qualifies cfg) transfers)"

text \<open>\<^verbatim>\<open>[...destSet]\<close>: the destinations in the order of their first insertion.\<close>

definition setOrder :: "'a list \<Rightarrow> 'a list" where
  "setOrder xs = rev (remdups (rev xs))"

subsection \<open>Evaluate\<close>

definition consideredOf :: "config \<Rightarrow> outflow list \<Rightarrow> outflow list" where
  "consideredOf cfg window = filter (\<lambda>x. inSolRangeLamports cfg (outLamports x)) window"

definition matchesOf :: "config \<Rightarrow> outflow list \<Rightarrow> outflow list" where
  "matchesOf cfg window =
     filter (\<lambda>x. isFiveDigitsLamports_4dpCut (outLamports x)) (consideredOf cfg window)"

text \<open>The argument of the webhook call, built from the window and the matched transactions.\<close>

definition buildAlert :: "config \<Rightarrow> externals \<Rightarrow> string \<Rightarrow> env \<Rightarrow> outflow list \<Rightarrow> alert" where
  "buildAlert cfg ext w en window =
     (let lines = concat (map (\<lambda>m. matchedLinesOf cfg (transfersForMatch ext w en (signature m)))
                          (matchesOf cfg window))
      in \<lparr>watch = w, matchedLines = lines,
          destPreview = js_slice0 (PREVIEW_DEST_LIMIT cfg) (setOrder (map destWallet lines)),
          windowSize = length window,
          inRangeCount = length (consideredOf cfg window),
          fiveDigitsCount = length (matchesOf cfg window)\<rparr>)"

definition main_evaluate ::
  "config \<Rightarrow> externals \<Rightarrow> string \<Rightarrow> env \<Rightarrow> bot_state
     \<Rightarrow> bot_state \<times> event list \<times> js_error option" where
  "main_evaluate cfg ext w en s =
     (if int (length (outflows s)) \<ge> WINDOW_OUTFLOWS cfg then
        if int (length (matchesOf cfg (outflows s))) \<ge> REQUIRED_MATCH cfg then
          let alertKey = makeAlertKey (outflows s)
          in if lastAlertKey s \<noteq> Some alertKey then
               let s1 = s\<lparr>lastAlertKey := Some alertKey\<rparr>;
                   a = buildAlert cfg ext w en (outflows s1);
                   sent = [Saved s1, Dispatched a (sendDiscordText en a)];
                   s2 = s1\<lparr>outflows := [], lastAlertKey := None\<rparr>
               in (case fetchNewestSignature (newestReply en) of
                     Inl e \<Rightarrow> (s2, sent, Some e)
                   | Inr newest \<Rightarrow>
                       let s3 = s2\<lparr>anchorSig := newest\<rparr>
                       in (s3, sent @ [Saved s3], None))
             else (s, [], None)
        else (s, [], None)
      else (s, [], None))"

subsection \<open>One cycle, warm-up and the loop\<close>

definition main_cycle ::
  "config \<Rightarrow> externals \<Rightarrow> string \<Rightarrow> env \<Rightarrow> bot_state
     \<Rightarrow> bot_state \<times> event list \<times> js_error option" where
  "main_cycle cfg ext w en s =
     (case fetchNewSignatures (pollReply en) (anchorSig s) of
        Inl e \<Rightarrow> (s, [], Some e)
      | Inr newSigs \<Rightarrow>
          if newSigs \<noteq> [] then
            (case ingest cfg ext w en (rev newSigs) (s\<lparr>anchorSig := Some (hd newSigs)\<rparr>) of
               (s1, evs, Some e) \<Rightarrow> (s1, evs, Some e)
             | (s1, evs, None) \<Rightarrow>
                 (case main_evaluate cfg ext w en s1 of
                    (s2, evs2, err) \<Rightarrow> (s2, evs @ [Saved s1] @ evs2, err)))
          else main_evaluate cfg ext w en s)"

definition warm_up :: "env \<Rightarrow> bot_state \<Rightarrow> js_error + bot_state \<times> event list" where
  "warm_up en s =
     (if \<not> sig_truthy (anchorSig s) then
        (case fetchNewestSignature (newestReply en) of
           Inl e \<Rightarrow> Inl e
         | Inr newest \<Rightarrow>
             let s' = \<lparr>anchorSig = newest, outflows = [], lastAlertKey = None\<rparr>
             in Inr (s', [Saved s']))
      else Inr (s, []))"

text \<open>
  The \<^verbatim>\<open>while (true)\<close> loop over the first cycles of a run, one \<open>env\<close> per cycle; an
  exception that reaches the loop is logged and the next cycle starts from the state as
  it then is.
\<close>

fun run :: "config \<Rightarrow> externals \<Rightarrow> string \<Rightarrow> env list \<Rightarrow> bot_state \<Rightarrow> bot_state \<times> event list" where
  "run cfg ext w [] s = (s, [])"
| "run cfg ext w (en # ens) s =
     (case main_cycle cfg ext w en s of
        (s1, evs, err) \<Rightarrow>
          (case run cfg ext w ens s1 of (s2, evs2) \<Rightarrow> (s2, evs @ evs2)))"

text \<open>
  The guards of the evaluation: the window is full and the match count reaches the
  threshold; and the alert key of the window is not the one marked as sent.
\<close>

definition thresholdReached :: "config \<Rightarrow> bot_state \<Rightarrow> bool" where
  "thresholdReached cfg s =
     (int (length (outflows s)) \<ge> WINDOW_OUTFLOWS cfg
      \<and> int (length (matchesOf cfg (outflows s))) \<ge> REQUIRED_MATCH cfg)"

definition triggers :: "config \<Rightarrow> bot_state \<Rightarrow> bool" where
  "triggers cfg s =
     (thresholdReached cfg s \<and> lastAlertKey s \<noteq> Some (makeAlertKey (outflows s)))"

section \<open>The per-destination variant\<close>

definition isFiveDigitsTransferLamports :: "jsnum \<Rightarrow> bool" where
  "isFiveDigitsTransferLamports n =
     (let scaled = floor_div (math_abs n) 100000
      in num_le (Fin 0) scaled \<and> num_le scaled (Fin 99999))"

text \<open>
  The loop over the transfers of one window transaction.  The result is the pair of
  flags \<^verbatim>\<open>hasInRange\<close>, \<^verbatim>\<open>hasFiveDigits\<close> and the line pushed onto \<^verbatim>\<open>matchedLines\<close>,
  if any; the argument \<open>r\<close> is \<^verbatim>\<open>hasInRange\<close> so far.
\<close>

fun scanTransfers :: "config \<Rightarrow> transfer list \<Rightarrow> bool \<Rightarrow> bool \<times> bool \<times> matched_line option" where
  "scanTransfers cfg [] r = (r, False, None)"
| "scanTransfers cfg (t # rest) r =
     (if \<not> truthy (to t) \<or> \<not> num_truthy (lamports t) then scanTransfers cfg rest r
      else if \<not> inSolRangeLamports cfg (lamports t) then scanTransfers cfg rest r
      else if \<not> isFiveDigitsTransferLamports (lamports t) then scanTransfers cfg rest True
      else (True, True, Some (lineOf t)))"

text \<open>
  The loop over the window; \<open>transfersOf\<close> stands for the fetch and extraction of a
  transaction's transfers, whose failures the source turns into the empty list.  The
  result is \<^verbatim>\<open>inRangeTx\<close>, \<^verbatim>\<open>fiveDigitsTx\<close> and \<^verbatim>\<open>matchedLines\<close>.
\<close>

fun scanWindow ::
  "config \<Rightarrow> (string \<Rightarrow> transfer list) \<Rightarrow> sig_item list
     \<Rightarrow> string list \<times> string list \<times> matched_line list" where
  "scanWindow cfg transfersOf [] = ([], [], [])"
| "scanWindow cfg transfersOf (item # rest) =
     (case scanTransfers cfg (transfersOf (signature item)) False of
        (r, f, line) \<Rightarrow>
          (case scanWindow cfg transfersOf rest of
             (inRangeTx, fiveDigitsTx, lines) \<Rightarrow>
               ((if r then [signature item] else []) @ inRangeTx,
                (if f then [signature item] else []) @ fiveDigitsTx,
                (case line of None \<Rightarrow> [] | Some l \<Rightarrow> [l]) @ lines)))"

section \<open>Shapes on which extraction returns\<close>

text \<open>
  The places where the extractors can raise are the loops over a value that is not
  iterable, the read of \<^verbatim>\<open>instructions\<close> from a null inner item, and the
  \<^verbatim>\<open>toBase58()\<close> call on an account key that has no such method.  The predicates below
  say that none of these occurs.
\<close>

fun iterable :: "jsval \<Rightarrow> bool" where
  "iterable (Arr xs) = True"
| "iterable (Str s) = True"
| "iterable v = False"

fun isMethod :: "jsval \<Rightarrow> bool" where
  "isMethod (ToBase58 s) = True"
| "isMethod v = False"

text \<open>\<^verbatim>\<open>v || []\<close> can be looped over: \<open>v\<close> is falsy, an array or a string.\<close>

definition listOrAbsent :: "jsval \<Rightarrow> bool" where
  "listOrAbsent v = iterable (js_or v (Arr []))"

definition innerItemOk :: "jsval \<Rightarrow> bool" where
  "innerItemOk item = (\<not> nullish item \<and> listOrAbsent (get item ''instructions''))"

definition innerItemsOk :: "jsval \<Rightarrow> bool" where
  "innerItemsOk inner =
     (case iter (js_or inner (Arr [])) of
        Inl e \<Rightarrow> False
      | Inr items \<Rightarrow> list_all innerItemOk items)"

definition parsedShapeOk :: "jsval \<Rightarrow> bool" where
  "parsedShapeOk tx =
     (listOrAbsent (opt_member (opt_member (opt_member tx ''transaction'') ''message'')
                      ''instructions'')
      \<and> innerItemsOk (opt_member (opt_member tx ''meta'') ''innerInstructions''))"

definition accountKeyOk :: "jsval \<Rightarrow> bool" where
  "accountKeyOk k =
     (if \<not> truthy k \<or> is_str k then True
      else if truthy (get k ''toBase58'') then isMethod (get k ''toBase58'')
      else if truthy (get k ''pubkey'') then
        is_str (get k ''pubkey'') \<or> isMethod (get (get k ''pubkey'') ''toBase58'')
      else True)"

definition loadedOk :: "jsval \<Rightarrow> string \<Rightarrow> bool" where
  "loadedOk la f =
     (if truthy (opt_member (opt_member la f) ''length'') then iterable (get la f) else True)"

definition accountKeysOk :: "jsval \<Rightarrow> bool" where
  "accountKeysOk tx =
     (let msg = opt_member (opt_member tx ''transaction'') ''message'';
          la = opt_member (opt_member tx ''meta'') ''loadedAddresses''
      in (case iter (js_or (opt_member msg ''accountKeys'') (Arr [])) of
            Inl e \<Rightarrow> False
          | Inr ks \<Rightarrow> list_all accountKeyOk ks)
         \<and> loadedOk la ''writable'' \<and> loadedOk la ''readonly'')"

definition compiledShapeOk :: "jsval \<Rightarrow> bool" where
  "compiledShapeOk tx =
     (let msg = opt_member (opt_member tx ''transaction'') ''message'';
          meta = opt_member tx ''meta''
      in if \<not> truthy msg \<or> \<not> truthy meta then True
         else accountKeysOk tx \<and> listOrAbsent (get msg ''instructions'')
              \<and> innerItemsOk (get meta ''innerInstructions''))"

section \<open>Example values\<close>

text \<open>
  Concrete inputs for the closed theorems below.  The library stand-ins convert numbers
  only and reject every instruction, so the example transaction is classified by its
  balance change: the watched account \<open>W\<close> goes from 5 SOL to 3 SOL.
\<close>

definition example_config :: config where
  "example_config = \<lparr>MIN_SOL = 1 / 10, MAX_SOL = 20, WINDOW_OUTFLOWS = 1, REQUIRED_MATCH = 1,
                      PREVIEW_DEST_LIMIT = 10\<rparr>"


definition degenerate_config :: config where
  "degenerate_config = example_config\<lparr>WINDOW_OUTFLOWS := 0, REQUIRED_MATCH := 0\<rparr>"

definition example_externals :: externals where
  "example_externals =
     \<lparr>Number_of = (\<lambda>v. case v of Num n \<Rightarrow> n | _ \<Rightarrow> NaN),
      String_of = (\<lambda>v. ''[object Object]''),
      Buffer_from_base64 = (\<lambda>v. Inl DecodeError),
      bs58_decode = (\<lambda>v. Inl DecodeError),
      new_PublicKey = (\<lambda>v. Inl DecodeError),
      decodeInstructionType = (\<lambda>i. Inl DecodeError),
      decodeTransfer = (\<lambda>i. Inl DecodeError),
      decodeTransferWithSeed = (\<lambda>i. Inl DecodeError)\<rparr>"

definition example_tx :: jsval where
  "example_tx =
     Obj [(''transaction'', Obj [(''message'', Obj [(''accountKeys'', Arr [Str ''W'', Str ''D''])])]),
          (''meta'', Obj [(''preBalances'', Arr [Num (Fin 5000000000), Num (Fin 0)]),
                         (''postBalances'', Arr [Num (Fin 3000000000), Num (Fin 2000000000)])])]"

text \<open>
  A cycle in which the poll answers \<open>B, A\<close>, the newest-signature query answers with
  nothing, the structured fetch fails and the webhook call throws.
\<close>

definition example_env :: env where
  "example_env =
     \<lparr>pollReply = Inr [''B'', ''A''], newestReply = Inr [],
      getTransaction = (\<lambda>sig. Inr example_tx),
      getParsedTransaction = (\<lambda>sig. Inl RpcError),
      sendDiscordText = (\<lambda>a. False), now = 0\<rparr>"



definition first_tx_env :: env where
  "first_tx_env = example_env\<lparr>pollReply := Inr [], newestReply := Inr [''S1'']\<rparr>"

definition second_tx_env :: env where
  "second_tx_env = example_env\<lparr>pollReply := Inr [''S2'', ''S1''], newestReply := Inr [''S2'']\<rparr>"

text \<open>The state a warm-up leaves when the account has no signature yet.\<close>

definition idle_state :: bot_state where
  "idle_state = \<lparr>anchorSig = None, outflows = [], lastAlertKey = None\<rparr>"


definition example_state :: bot_state where
  "example_state =
     \<lparr>anchorSig = Some ''B'',
      outflows = [newOutflow example_env ''B'' (Fin 2000000000)],
      lastAlertKey = None\<rparr>"


definition empty_alert :: alert where
  "empty_alert =
     \<lparr>watch = ''W'', matchedLines = [], destPreview = [], windowSize = 0, inRangeCount = 0,
      fiveDigitsCount = 0\<rparr>"

text \<open>
  The structured form of a transaction in which \<open>W\<close> sends 1 SOL to \<open>D1\<close> and 1 SOL to
  \<open>D2\<close>, and a cycle whose structured fetch returns it.
\<close>

definition transfer_ix :: "string \<Rightarrow> jsval" where
  "transfer_ix dest =
     Obj [(''program'', Str ''system''),
          (''parsed'', Obj [(''type'', Str ''transfer''),
                           (''info'', Obj [(''source'', Str ''W''), (''destination'', Str dest),
                                          (''lamports'', Num (Fin 1000000000))])])]"

definition example_parsed_tx :: jsval where
  "example_parsed_tx =
     Obj [(''transaction'',
           Obj [(''message'', Obj [(''instructions'', Arr [transfer_ix ''D1'', transfer_ix ''D2''])])])]"

definition parsed_env :: env where
  "parsed_env = example_env\<lparr>getParsedTransaction := (\<lambda>sig. Inr example_parsed_tx)\<rparr>"

text \<open>A transaction whose \<^verbatim>\<open>instructions\<close> field is the number 5.\<close>

definition malformed_tx :: jsval where
  "malformed_tx =
     Obj [(''transaction'', Obj [(''message'', Obj [(''instructions'', Num (Fin 5))])]),
          (''meta'', Obj [])]"

definition transfer_to :: "string \<Rightarrow> transfer" where
  "transfer_to dest = \<lparr>to = Str dest, lamports = Fin 1000000000, ttype = Str ''transfer''\<rparr>"

definition two_line_alert :: alert where
  "two_line_alert =
     \<lparr>watch = ''W'',
      matchedLines = [\<lparr>sol4 = ''1.0000'', destWallet = Str ''D1''\<rparr>,
                      \<lparr>sol4 = ''1.0000'', destWallet = Str ''D2''\<rparr>],
      destPreview = [Str ''D1'', Str ''D2''], windowSize = 1, inRangeCount = 1,
      fiveDigitsCount = 1\<rparr>"

text \<open>
  A transaction built from arbitrary instruction values: \<open>ixs\<close> at the top level and one
  inner item per list in \<open>inner\<close>.  Only the containers are lists; the instructions
  themselves may be anything.
\<close>

definition shaped_tx :: "string list \<Rightarrow> jsval list \<Rightarrow> jsval list list \<Rightarrow> jsval" where
  "shaped_tx keys ixs inner =
     Obj [(''transaction'',
           Obj [(''message'', Obj [(''accountKeys'', Arr (map Str keys)),
                                  (''instructions'', Arr ixs)])]),
          (''meta'',
           Obj [(''innerInstructions'',
                 Arr (map (\<lambda>js. Obj [(''instructions'', Arr js)]) inner))])]"

section \<open>Properties of the classifier\<close>

lemma abs_mod_zero_iff: "(\<bar>l\<bar> mod c = 0) = ((l::int) mod c = 0)"
  by (simp flip: dvd_eq_mod_eq_0)

text \<open>
  The exact classifier accepts exactly the non-zero whole multiples of \<open>100000\<close> lamports
  whose quotient has at most five digits.
\<close>

lemma exact_true_iff:
  "isFiveDigitsByDestDeltaExact d =
     (\<exists>k. d = Fin (100000 * k) \<and> k \<noteq> 0 \<and> \<bar>k\<bar> \<le> 99999)"
proof (cases d)
  case (Fin l)
  show ?thesis
  proof (cases "l = 0")
    case True
    with Fin show ?thesis
      by (simp add: isFiveDigitsByDestDeltaExact_def abs_or_zero_def)
  next
    case False
    have "isFiveDigitsByDestDeltaExact (Fin l) = (l mod 100000 = 0 \<and> \<bar>l\<bar> div 100000 \<le> 99999)"
      using False
      by (auto simp: isFiveDigitsByDestDeltaExact_def abs_or_zero_def LAMPORTS_PER_SOL_4DP_def
          Let_def abs_mod_zero_iff)
    also have "\<dots> = (\<exists>k. l = 100000 * k \<and> k \<noteq> 0 \<and> \<bar>k\<bar> \<le> 99999)"
    proof
      assume a: "l mod 100000 = 0 \<and> \<bar>l\<bar> div 100000 \<le> 99999"
      then obtain k where k: "l = 100000 * k" by (auto simp: mod_eq_0_iff_dvd)
      with a False show "\<exists>k. l = 100000 * k \<and> k \<noteq> 0 \<and> \<bar>k\<bar> \<le> 99999"
        by (intro exI[of _ k]) (auto simp: abs_mult)
    next
      assume "\<exists>k. l = 100000 * k \<and> k \<noteq> 0 \<and> \<bar>k\<bar> \<le> 99999"
      then show "l mod 100000 = 0 \<and> \<bar>l\<bar> div 100000 \<le> 99999"
        by (auto simp: abs_mult)
    qed
    finally show ?thesis using Fin by simp
  qed
qed (simp_all add: isFiveDigitsByDestDeltaExact_def abs_or_zero_def)

lemma length_dec_digits: "n < 10 ^ k \<Longrightarrow> 0 < k \<Longrightarrow> length (dec_digits n) \<le> k"
proof (induction n arbitrary: k rule: dec_digits.induct)
  case (1 n)
  show ?case
  proof (cases "n < 10")
    case True
    then show ?thesis using "1.prems" by (simp add: dec_digits.simps[of n])
  next
    case False
    then obtain j where j: "k = Suc j" using "1.prems" by (cases k) auto
    from False "1.prems" j have "0 < j" by (cases j) auto
    moreover from "1.prems" j have "n div 10 < 10 ^ j"
      by (simp add: less_mult_imp_div_less mult.commute)
    ultimately have "length (dec_digits (n div 10)) \<le> j"
      using "1.IH"[OF False] by blast
    then show ?thesis using False j by (simp add: dec_digits.simps[of n])
  qed
qed

lemma dec_digits_nonempty: "dec_digits n \<noteq> []"
  by (simp add: dec_digits.simps[of n])

lemma length_padStart: "length s \<le> n \<Longrightarrow> length (padStart n c s) = n"
  by (simp add: padStart_def)

lemma frac_four:
  assumes "0 \<le> i"
  shows "length (padStart 4 c (num_to_string (num_rem (Fin i) 10000))) = 4"
proof -
  have "sgn i * (\<bar>i\<bar> mod 10000) = i mod 10000"
    using assms by (cases "i = 0") auto
  moreover have "nat (i mod 10000) < 10 ^ 4" by simp
  then have "length (dec_digits (nat (i mod 10000))) \<le> 4"
    by (rule length_dec_digits) simp
  ultimately show ?thesis
    by (simp add: length_padStart)
qed

text \<open>
  C3 as stated.  The claim gives 9.9999 SOL as 999,990,000 lamports with scaled value
  99999.  That amount is 0.99999 SOL; its scaled value is 9999 and it prints as 0.9999.
\<close>

theorem C3_claimed_lamports_refuted:
  "scaled_4dpCut (Fin 999990000) = Fin 9999
   \<and> scaled_4dpCut (Fin 999990000) \<noteq> Fin 99999
   \<and> lamportsToSol4String (Fin 999990000) = ''0.9999''
   \<and> (of_int 999990000 / of_int LAMPORTS_PER_SOL :: rat) \<noteq> 99999 / 10000"
  by (simp add: scaled_4dpCut_def lamportsToSol4String_def padStart_def dec_digits.simps
      LAMPORTS_PER_SOL_def)

text \<open>
  C3, amended.  Under the truncating policy the classifier scales a lamport amount to
  \<open>floor(|lamports| / 100000)\<close> and matches exactly when the scaled value is at most
  99999.  9.9999 SOL is 9,999,900,000 lamports, has scaled value 99999 and matches;
  10.0000 SOL is 10,000,000,000 lamports, has scaled value 100000 and does not.
\<close>

theorem C3_truncating_boundary:
  "(\<forall>l. scaled_4dpCut (Fin l) = Fin (\<bar>l\<bar> div 100000))
   \<and> (\<forall>l. isFiveDigitsLamports_4dpCut (Fin l) = (\<bar>l\<bar> div 100000 \<le> 99999))
   \<and> (of_int 9999900000 / of_int LAMPORTS_PER_SOL :: rat) = 99999 / 10000
   \<and> scaled_4dpCut (Fin 9999900000) = Fin 99999
   \<and> isFiveDigitsLamports_4dpCut (Fin 9999900000)
   \<and> lamportsToSol4String (Fin 9999900000) = ''9.9999''
   \<and> (of_int 10000000000 / of_int LAMPORTS_PER_SOL :: rat) = 10
   \<and> scaled_4dpCut (Fin 10000000000) = Fin 100000
   \<and> \<not> isFiveDigitsLamports_4dpCut (Fin 10000000000)"
  by (simp add: scaled_4dpCut_def isFiveDigitsLamports_4dpCut_def lamportsToSol4String_def
      padStart_def dec_digits.simps LAMPORTS_PER_SOL_def)

text \<open>
  C4.  Under the exact policy an amount that is not a whole multiple of 100000 lamports
  is never a match, whatever number it is; 1.23455 SOL (1,234,550,000 lamports) is not a
  match, and 1.2345 SOL (1,234,500,000 lamports, scaled value 12345) is.
\<close>

theorem C4_exact_boundary:
  "((\<forall>k. d \<noteq> Fin (100000 * k)) \<longrightarrow> \<not> isFiveDigitsByDestDeltaExact d)
   \<and> (of_int 1234550000 / of_int LAMPORTS_PER_SOL :: rat) = 123455 / 100000
   \<and> \<not> isFiveDigitsByDestDeltaExact (Fin 1234550000)
   \<and> (of_int 1234500000 / of_int LAMPORTS_PER_SOL :: rat) = 12345 / 10000
   \<and> floor_div (abs_or_zero (Fin 1234500000)) LAMPORTS_PER_SOL_4DP = Fin 12345
   \<and> isFiveDigitsByDestDeltaExact (Fin 1234500000)"
proof -
  have "(\<forall>k. d \<noteq> Fin (100000 * k)) \<longrightarrow> \<not> isFiveDigitsByDestDeltaExact d"
    by (auto simp: exact_true_iff)
  moreover have "\<not> isFiveDigitsByDestDeltaExact (Fin 1234550000)"
    by (simp add: isFiveDigitsByDestDeltaExact_def abs_or_zero_def LAMPORTS_PER_SOL_4DP_def)
  moreover have "isFiveDigitsByDestDeltaExact (Fin 1234500000)"
    by (simp add: isFiveDigitsByDestDeltaExact_def abs_or_zero_def LAMPORTS_PER_SOL_4DP_def)
  ultimately show ?thesis
    by (simp add: LAMPORTS_PER_SOL_def abs_or_zero_def LAMPORTS_PER_SOL_4DP_def)
qed

text \<open>
  Witness for C4 at 1.23455 SOL plus one lamport, which is no multiple of 100000.
\<close>

theorem C4_exact_boundary_witness:
  "(\<forall>k. Fin 1234550001 \<noteq> Fin (100000 * k)) \<and> \<not> isFiveDigitsByDestDeltaExact (Fin 1234550001)"
proof -
  have h: "\<forall>k. Fin 1234550001 \<noteq> Fin (100000 * k)"
  proof
    fix k :: int
    have "(100000 * k) mod 100000 = 0" by simp
    moreover have "(1234550001::int) mod 100000 \<noteq> 0" by simp
    ultimately have "(1234550001::int) \<noteq> 100000 * k" by metis
    then show "Fin 1234550001 \<noteq> Fin (100000 * k)" by simp
  qed
  show ?thesis using h C4_exact_boundary [of "Fin 1234550001"] by blast
qed

text \<open>
  C10.  Whenever the exact classifier accepts a delta, the exact formatter returns a
  string on that delta: an integer part, a dot and four fraction digits.  The string is
  not empty, so the \<^verbatim>\<open>if (!sol4) continue\<close> after the formatter is never taken.
\<close>

theorem C10_exact_format_defined:
  assumes "isFiveDigitsByDestDeltaExact d"
  shows "\<exists>ip fp. lamportsToSol4ExactString d = Some (ip @ ''.'' @ fp) \<and> ip \<noteq> [] \<and> length fp = 4"
proof -
  from assms obtain k where k: "d = Fin (100000 * k)" "k \<noteq> 0" "\<bar>k\<bar> \<le> 99999"
    by (auto simp: exact_true_iff)
  let ?s = "\<bar>k\<bar>"
  have v: "abs_or_zero d = Fin (100000 * ?s)"
    using k by (simp add: abs_or_zero_def abs_mult)
  have pos: "0 < ?s" using k by simp
  have "lamportsToSol4ExactString d =
          Some (num_to_string (floor_div (Fin ?s) 10000) @ ''.'' @
                padStart 4 (CHR ''0'') (num_to_string (num_rem (Fin ?s) 10000)))"
    using pos by (simp add: lamportsToSol4ExactString_def v LAMPORTS_PER_SOL_4DP_def Let_def)
  moreover have "num_to_string (floor_div (Fin ?s) 10000) \<noteq> []"
    by (simp add: dec_digits_nonempty)
  moreover have "length (padStart 4 (CHR ''0'') (num_to_string (num_rem (Fin ?s) 10000))) = 4"
    by (rule frac_four) simp
  ultimately show ?thesis by blast
qed

text \<open>Witness for C10 at 1.2345 SOL, which prints as 1.2345.\<close>

theorem C10_exact_format_defined_witness:
  "isFiveDigitsByDestDeltaExact (Fin 1234500000)
   \<and> lamportsToSol4ExactString (Fin 1234500000) = Some ''1.2345''
   \<and> (\<exists>ip fp. lamportsToSol4ExactString (Fin 1234500000) = Some (ip @ ''.'' @ fp)
        \<and> ip \<noteq> [] \<and> length fp = 4)"
proof -
  have h: "isFiveDigitsByDestDeltaExact (Fin 1234500000)"
    by (simp add: isFiveDigitsByDestDeltaExact_def abs_or_zero_def LAMPORTS_PER_SOL_4DP_def)
  have f: "lamportsToSol4ExactString (Fin 1234500000) = Some ''1.2345''"
    by (simp add: lamportsToSol4ExactString_def abs_or_zero_def LAMPORTS_PER_SOL_4DP_def
        padStart_def dec_digits.simps)
  show ?thesis using h f C10_exact_format_defined [OF h] by simp
qed

section \<open>Properties of the window\<close>

lemma take_append_take: "take n (xs @ take n ys) = take n (xs @ ys)"
  by (simp add: min_def)

lemma insertOutflow_take:
  "int (length w) \<le> WINDOW_OUTFLOWS cfg \<Longrightarrow>
     insertOutflow cfg w r = take (nat (WINDOW_OUTFLOWS cfg)) (r # w)"
  by (auto simp: insertOutflow_def js_slice0_def Let_def)

lemma foldl_insertOutflow:
  "int (length w) \<le> WINDOW_OUTFLOWS cfg \<Longrightarrow>
     foldl (insertOutflow cfg) w rs = take (nat (WINDOW_OUTFLOWS cfg)) (rev rs @ w)"
proof (induction rs arbitrary: w)
  case Nil
  then show ?case by simp
next
  case (Cons r rs)
  let ?n = "nat (WINDOW_OUTFLOWS cfg)"
  have step: "insertOutflow cfg w r = take ?n (r # w)"
    using Cons.prems by (rule insertOutflow_take)
  have "int (length (take ?n (r # w))) \<le> WINDOW_OUTFLOWS cfg"
    using Cons.prems by simp
  then have "foldl (insertOutflow cfg) (take ?n (r # w)) rs = take ?n (rev rs @ take ?n (r # w))"
    by (rule Cons.IH)
  then show ?case
    by (simp add: step take_append_take del: take_Suc_Cons)
qed

section \<open>Properties of the evaluation\<close>

lemma main_evaluate_idle:
  "\<not> triggers cfg s \<Longrightarrow> main_evaluate cfg ext w en s = (s, [], None)"
  by (auto simp: triggers_def thresholdReached_def main_evaluate_def Let_def)

lemma main_evaluate_trigger:
  assumes "triggers cfg s"
  shows "main_evaluate cfg ext w en s =
     (let s1 = s\<lparr>lastAlertKey := Some (makeAlertKey (outflows s))\<rparr>;
          a = buildAlert cfg ext w en (outflows s);
          sent = [Saved s1, Dispatched a (sendDiscordText en a)]
      in case fetchNewestSignature (newestReply en) of
           Inl e \<Rightarrow> (s\<lparr>outflows := [], lastAlertKey := None\<rparr>, sent, Some e)
         | Inr newest \<Rightarrow>
             (s\<lparr>anchorSig := newest, outflows := [], lastAlertKey := None\<rparr>,
              sent @ [Saved (s\<lparr>anchorSig := newest, outflows := [], lastAlertKey := None\<rparr>)],
              None))"
  using assms
  by (auto simp: triggers_def thresholdReached_def main_evaluate_def Let_def split: sum.splits)

lemma transfersForMatch_send [simp]:
  "transfersForMatch ext w (en\<lparr>sendDiscordText := f\<rparr>) sig = transfersForMatch ext w en sig"
  by (simp add: transfersForMatch_def Let_def cong: if_cong)

lemma buildAlert_send [simp]:
  "buildAlert cfg ext w (en\<lparr>sendDiscordText := f\<rparr>) window = buildAlert cfg ext w en window"
  by (simp add: buildAlert_def)

lemma triggers_after_empty:
  "outflows s = [] \<Longrightarrow> lastAlertKey s = None \<Longrightarrow>
     triggers cfg s = (WINDOW_OUTFLOWS cfg \<le> 0 \<and> REQUIRED_MATCH cfg \<le> 0)"
  by (auto simp: triggers_def thresholdReached_def matchesOf_def consideredOf_def)

lemma ingest_window:
  "ingest cfg ext w en sigs s = (s', evs, err) \<Longrightarrow>
     (\<exists>rs. outflows s' = foldl (insertOutflow cfg) (outflows s) rs
            \<and> set (map signature rs) \<subseteq> set sigs)
     \<and> anchorSig s' = anchorSig s \<and> lastAlertKey s' = lastAlertKey s
     \<and> filter is_dispatch evs = []"
proof (induction sigs arbitrary: s s' evs err)
  case Nil
  then show ?case by (auto intro: exI[of _ "[]"])
next
  case (Cons sig rest)
  show ?case
  proof (cases "txOutLamports ext w en sig")
    case (Inl e)
    with Cons.prems show ?thesis by (auto intro: exI[of _ "[]"])
  next
    case (Inr r)
    show ?thesis
    proof (cases r)
      case None
      with Inr Cons.prems obtain evs0 where
        "ingest cfg ext w en rest s = (s', evs0, err)" "evs = Fetched sig # evs0"
        by (auto split: prod.splits)
      with Cons.IH[of s s' evs0 err] show ?thesis by auto
    next
      case (Some n)
      let ?s1 = "s\<lparr>outflows := insertOutflow cfg (outflows s) (newOutflow en sig n)\<rparr>"
      from Some Inr Cons.prems obtain evs0 where
        r: "ingest cfg ext w en rest ?s1 = (s', evs0, err)" "evs = Fetched sig # evs0"
        by (auto split: prod.splits)
      from Cons.IH[OF r(1)] obtain rs where
        rs: "outflows s' = foldl (insertOutflow cfg) (outflows ?s1) rs"
            "set (map signature rs) \<subseteq> set rest"
        and others: "anchorSig s' = anchorSig ?s1" "lastAlertKey s' = lastAlertKey ?s1"
            "filter is_dispatch evs0 = []"
        by auto
      have "outflows s' = foldl (insertOutflow cfg) (outflows s) (newOutflow en sig n # rs)"
        using rs(1) by simp
      moreover have "set (map signature (newOutflow en sig n # rs)) \<subseteq> set (sig # rest)"
        using rs(2) by (auto simp: newOutflow_def)
      ultimately show ?thesis using others r(2) by (intro conjI exI[of _ "newOutflow en sig n # rs"]) auto
    qed
  qed
qed

section \<open>The example transaction\<close>

lemma keys_example: "getAllAccountKeysFromTx example_externals example_tx = Inr [Str ''W'', Str ''D'']"
  by (simp add: getAllAccountKeysFromTx_def example_tx_def opt_member_def js_or_def
      pubkeyToString_def loadedKeys_def example_externals_def)

lemma decode_example:
  "decodeSystemTransfersOutWithSum example_externals example_tx ''W'' = Inr (withSum [])"
  by (simp add: decodeSystemTransfersOutWithSum_def keys_example[unfolded example_tx_def]
      example_tx_def opt_member_def js_or_def Let_def List.map_filter_simps)

lemma fallback_example:
  "getNetOutLamportsFallback example_externals example_tx ''W'' = Inr (Fin 2000000000)"
  by (simp add: getNetOutLamportsFallback_def keys_example[unfolded example_tx_def]
      example_tx_def opt_member_def opt_elem_def nth_or_undefined_def num_sub_def Let_def)

lemma out_example: "txOutLamports example_externals ''W'' example_env sig = Inr (Some (Fin 2000000000))"
  by (simp add: txOutLamports_def example_env_def decode_example fallback_example withSum_def)

section \<open>Window capacity\<close>

lemma ingest_length:
  assumes "int (length (outflows s)) \<le> WINDOW_OUTFLOWS cfg"
    and "ingest cfg ext w en sigs s = (s', evs, err)"
  shows "int (length (outflows s')) \<le> WINDOW_OUTFLOWS cfg
         \<and> (\<exists>rs. outflows s' = take (nat (WINDOW_OUTFLOWS cfg)) (rev rs @ outflows s))"
proof -
  from ingest_window[OF assms(2)] obtain rs where
    "outflows s' = foldl (insertOutflow cfg) (outflows s) rs" by blast
  then have eq: "outflows s' = take (nat (WINDOW_OUTFLOWS cfg)) (rev rs @ outflows s)"
    using foldl_insertOutflow[OF assms(1)] by simp
  have "0 \<le> WINDOW_OUTFLOWS cfg" using assms(1) by linarith
  then have "int (length (outflows s')) \<le> WINDOW_OUTFLOWS cfg"
    unfolding eq by simp
  then show ?thesis using eq by blast
qed

text \<open>
  C2.  Starting from a window no longer than \<open>WINDOW_OUTFLOWS\<close>, after any sequence of
  insertions \<open>rs\<close> (each a prepend followed by the trim) the window is no longer than the
  capacity and consists of the most recent records, newest first: it is the first
  \<open>WINDOW_OUTFLOWS\<close> elements of the inserted records in reverse order followed by the
  old window, hence exactly the last \<open>WINDOW_OUTFLOWS\<close> inserted records once that many
  have been inserted.  As \<open>rs\<close> is arbitrary this holds after each insertion.  The ingest
  loop changes the window by such insertions only, whatever it fetches and even when it
  is left by an exception.
\<close>

theorem C2_window_capacity:
  assumes "int (length window) \<le> WINDOW_OUTFLOWS cfg"
  shows "int (length (foldl (insertOutflow cfg) window rs)) \<le> WINDOW_OUTFLOWS cfg
       \<and> foldl (insertOutflow cfg) window rs = take (nat (WINDOW_OUTFLOWS cfg)) (rev rs @ window)
       \<and> (nat (WINDOW_OUTFLOWS cfg) \<le> length rs \<longrightarrow>
            foldl (insertOutflow cfg) window rs = take (nat (WINDOW_OUTFLOWS cfg)) (rev rs))
       \<and> (int (length (outflows s)) \<le> WINDOW_OUTFLOWS cfg
            \<and> ingest cfg ext w en sigs s = (s', evs, err) \<longrightarrow>
            int (length (outflows s')) \<le> WINDOW_OUTFLOWS cfg
            \<and> (\<exists>rs'. outflows s' = take (nat (WINDOW_OUTFLOWS cfg)) (rev rs' @ outflows s)))"
proof -
  have eq: "foldl (insertOutflow cfg) window rs = take (nat (WINDOW_OUTFLOWS cfg)) (rev rs @ window)"
    using assms by (rule foldl_insertOutflow)
  have "0 \<le> WINDOW_OUTFLOWS cfg" using assms by linarith
  then have "int (length (foldl (insertOutflow cfg) window rs)) \<le> WINDOW_OUTFLOWS cfg"
    unfolding eq by simp
  moreover have "nat (WINDOW_OUTFLOWS cfg) \<le> length rs \<longrightarrow>
      foldl (insertOutflow cfg) window rs = take (nat (WINDOW_OUTFLOWS cfg)) (rev rs)"
    unfolding eq by simp
  ultimately show ?thesis using eq ingest_length by blast
qed

text \<open>
  Witness for C2: with capacity 2, inserting 2, 3, 4 into the window \<open>[1]\<close> leaves
  \<open>[4, 3]\<close>; and the ingest loop on the example cycle inserts the one new outflow.
\<close>

theorem C2_window_capacity_witness:
  "int (length [1::nat]) \<le> WINDOW_OUTFLOWS (example_config\<lparr>WINDOW_OUTFLOWS := 2\<rparr>)
   \<and> nat (WINDOW_OUTFLOWS (example_config\<lparr>WINDOW_OUTFLOWS := 2\<rparr>)) \<le> length [2::nat, 3, 4]
   \<and> foldl (insertOutflow (example_config\<lparr>WINDOW_OUTFLOWS := 2\<rparr>)) [1::nat] [2, 3, 4] = [4, 3]
   \<and> int (length (outflows \<lparr>anchorSig = Some ''B'', outflows = [], lastAlertKey = None\<rparr>))
        \<le> WINDOW_OUTFLOWS (example_config\<lparr>WINDOW_OUTFLOWS := 2\<rparr>)
   \<and> ingest (example_config\<lparr>WINDOW_OUTFLOWS := 2\<rparr>) example_externals ''W'' example_env [''B'']
        \<lparr>anchorSig = Some ''B'', outflows = [], lastAlertKey = None\<rparr>
      = (\<lparr>anchorSig = Some ''B'', outflows = [newOutflow example_env ''B'' (Fin 2000000000)],
          lastAlertKey = None\<rparr>, [Fetched ''B''], None)
   \<and> int (length [newOutflow example_env ''B'' (Fin 2000000000)])
        \<le> WINDOW_OUTFLOWS (example_config\<lparr>WINDOW_OUTFLOWS := 2\<rparr>)"
proof -
  let ?cfg = "example_config\<lparr>WINDOW_OUTFLOWS := 2\<rparr>"
  let ?s = "\<lparr>anchorSig = Some ''B'', outflows = [], lastAlertKey = None\<rparr>"
  let ?s' = "\<lparr>anchorSig = Some ''B'', outflows = [newOutflow example_env ''B'' (Fin 2000000000)],
          lastAlertKey = None\<rparr>"
  have h: "int (length [1::nat]) \<le> WINDOW_OUTFLOWS ?cfg"
    by (simp add: example_config_def)
  have i: "ingest ?cfg example_externals ''W'' example_env [''B''] ?s = (?s', [Fetched ''B''], None)"
    by (simp add: out_example insertOutflow_def example_config_def)
  show ?thesis
    using h i
      C2_window_capacity [OF h, of "[2, 3, 4]" ?s example_externals "''W''" example_env
        "[''B'']" ?s' "[Fetched ''B'']" None]
    by (simp add: example_config_def)
qed

section \<open>Alert deduplication\<close>



lemma main_cycle_no_poll:
  "pollReply en = Inr [] \<Longrightarrow> main_cycle cfg ext w en s = main_evaluate cfg ext w en s"
  by (simp add: main_cycle_def fetchNewSignatures_def)




section \<open>Trigger transition and cursor\<close>


lemma main_cycle_null_cursor:
  assumes "0 < WINDOW_OUTFLOWS cfg \<or> 0 < REQUIRED_MATCH cfg"
  shows "fst (main_cycle cfg ext w en idle_state) = idle_state
         \<and> fst (snd (main_cycle cfg ext w en idle_state)) = []"
proof -
  have nt: "\<not> triggers cfg idle_state"
    using assms by (auto simp: triggers_after_empty idle_state_def)
  have ev: "main_evaluate cfg ext w en idle_state = (idle_state, [], None)"
    using nt by (rule main_evaluate_idle)
  show ?thesis
  proof (cases "pollReply en")
    case (Inl e)
    then show ?thesis by (simp add: main_cycle_def fetchNewSignatures_def)
  next
    case (Inr sigs)
    then have "fetchNewSignatures (pollReply en) (anchorSig idle_state) = Inr []"
      by (simp add: fetchNewSignatures_def idle_state_def)
    then show ?thesis by (simp add: main_cycle_def ev)
  qed
qed

lemma run_null_cursor:
  assumes "0 < WINDOW_OUTFLOWS cfg \<or> 0 < REQUIRED_MATCH cfg"
  shows "run cfg ext w ens idle_state = (idle_state, [])"
proof (induction ens)
  case Nil
  show ?case by simp
next
  case (Cons en ens)
  from main_cycle_null_cursor[OF assms, of ext w en] obtain err where
    "main_cycle cfg ext w en idle_state = (idle_state, [], err)"
    by (cases "main_cycle cfg ext w en idle_state") auto
  then show ?case using Cons.IH by simp
qed

text \<open>
  C9, amended.  With a null cursor the poll returns the empty list whatever the upstream
  query answers.  A warm-up that finds no signature leaves the null cursor with an empty
  window.  Provided \<open>WINDOW_OUTFLOWS\<close> or \<open>REQUIRED_MATCH\<close> is at least 1, every later
  cycle of the run, whatever the upstream answers, leaves that state as it is and has no
  effect at all: the cursor stays null and no transaction is fetched.
\<close>

theorem C9_null_cursor:
  "fetchNewSignatures (Inr sigs) None = Inr []
   \<and> (\<not> sig_truthy (anchorSig s0) \<and> fetchNewestSignature (newestReply en0) = Inr None \<longrightarrow>
        warm_up en0 s0 = Inr (idle_state, [Saved idle_state]))
   \<and> (0 < WINDOW_OUTFLOWS cfg \<or> 0 < REQUIRED_MATCH cfg \<longrightarrow>
        run cfg ext w ens idle_state = (idle_state, []))"
  using run_null_cursor[of cfg ext w ens]
  by (auto simp: fetchNewSignatures_def warm_up_def idle_state_def Let_def)



section \<open>The example cycle\<close>

lemma newOutflow_example [simp]:
  "signature (newOutflow en sig n) = sig" "outLamports (newOutflow en sig n) = n"
  by (simp_all add: newOutflow_def)

lemma classify_two_sol:
  "inSolRangeLamports example_config (Fin 2000000000)"
  "isFiveDigitsLamports_4dpCut (Fin 2000000000)"
  by (simp_all add: inSolRangeLamports_def example_config_def LAMPORTS_PER_SOL_def
      isFiveDigitsLamports_4dpCut_def scaled_4dpCut_def)

lemma matches_example:
  "inSolRangeLamports cfg (Fin 2000000000) \<Longrightarrow>
   matchesOf cfg [newOutflow en sig (Fin 2000000000)] = [newOutflow en sig (Fin 2000000000)]"
  "inSolRangeLamports cfg (Fin 2000000000) \<Longrightarrow>
   consideredOf cfg [newOutflow en sig (Fin 2000000000)] = [newOutflow en sig (Fin 2000000000)]"
  by (simp_all add: matchesOf_def consideredOf_def classify_two_sol)


lemma triggers_example: "triggers example_config example_state"
  by (simp add: triggers_def thresholdReached_def example_state_def matches_example
      classify_two_sol makeAlertKey_def)
     (simp add: example_config_def)



section \<open>A configuration without window and threshold\<close>

lemma triggers_degenerate:
  "outflows s = [] \<Longrightarrow> lastAlertKey s = None \<Longrightarrow> triggers degenerate_config s"
  by (simp add: triggers_after_empty degenerate_config_def)

lemma alert_degenerate:
  "buildAlert degenerate_config example_externals ''W'' en [] = empty_alert"
  by (simp add: buildAlert_def matchesOf_def consideredOf_def setOrder_def js_slice0_def
      empty_alert_def)

lemma evaluate_degenerate:
  assumes "outflows s = []" and "lastAlertKey s = None"
    and "fetchNewestSignature (newestReply en) = Inr newest"
  shows "main_evaluate degenerate_config example_externals ''W'' en s =
     (s\<lparr>anchorSig := newest\<rparr>,
      [Saved (s\<lparr>lastAlertKey := Some []\<rparr>), Dispatched empty_alert (sendDiscordText en empty_alert),
       Saved (s\<lparr>anchorSig := newest\<rparr>)], None)"
  using main_evaluate_trigger[OF triggers_degenerate[OF assms(1,2)], of example_externals "''W''" en]
    assms
  by (simp add: Let_def alert_degenerate makeAlertKey_def)



section \<open>Closed instances: deduplication, delivery failure, re-anchoring\<close>

lemma out_example_env:
  "getTransaction en sig = Inr example_tx \<Longrightarrow>
     txOutLamports example_externals ''W'' en sig = Inr (Some (Fin 2000000000))"
  by (simp add: txOutLamports_def decode_example fallback_example withSum_def)

lemma marked_idle:
  "main_evaluate example_config example_externals ''W'' en (example_state\<lparr>lastAlertKey := Some ''B''\<rparr>)
     = (example_state\<lparr>lastAlertKey := Some ''B''\<rparr>, [], None)"
  by (rule main_evaluate_idle) (simp add: triggers_def example_state_def makeAlertKey_def)



lemma ingest_one_example:
  assumes "getTransaction en = (\<lambda>sig. Inr example_tx)"
  shows "ingest cfg example_externals ''W'' en [sig] s =
     (s\<lparr>outflows := insertOutflow cfg (outflows s) (newOutflow en sig (Fin 2000000000))\<rparr>,
      [Fetched sig], None)"
  using assms by (simp add: out_example_env)



section \<open>Closed instances: cursor and null cursor\<close>




text \<open>
  Witness for C9: a warm-up that finds no signature leaves the null cursor, and two
  cycles whose poll answers \<open>B, A\<close> process nothing.
\<close>

theorem C9_null_cursor_witness:
  "\<not> sig_truthy (anchorSig idle_state)
   \<and> fetchNewestSignature (newestReply example_env) = Inr None
   \<and> warm_up example_env idle_state = Inr (idle_state, [Saved idle_state])
   \<and> 0 < WINDOW_OUTFLOWS example_config
   \<and> pollReply example_env = Inr [''B'', ''A'']
   \<and> run example_config example_externals ''W'' [example_env, example_env] idle_state
       = (idle_state, [])"
proof -
  have a: "\<not> sig_truthy (anchorSig idle_state)" by (simp add: idle_state_def)
  have n: "fetchNewestSignature (newestReply example_env) = Inr None"
    by (simp add: example_env_def fetchNewestSignature_def)
  have c: "0 < WINDOW_OUTFLOWS example_config" by (simp add: example_config_def)
  have p: "pollReply example_env = Inr [''B'', ''A'']" by (simp add: example_env_def)
  show ?thesis
    using a n c p
      C9_null_cursor [of "[''B'', ''A'']" idle_state example_env example_config
        example_externals "''W''" "[example_env, example_env]"]
    by simp
qed

lemma cycle_first_tx:
  "main_cycle degenerate_config example_externals ''W'' first_tx_env idle_state =
     (idle_state\<lparr>anchorSig := Some ''S1''\<rparr>,
      [Saved (idle_state\<lparr>lastAlertKey := Some []\<rparr>), Dispatched empty_alert False,
       Saved (idle_state\<lparr>anchorSig := Some ''S1''\<rparr>)], None)"
proof -
  have p: "pollReply first_tx_env = Inr []" by (simp add: first_tx_env_def)
  have n: "fetchNewestSignature (newestReply first_tx_env) = Inr (Some ''S1'')"
    by (simp add: first_tx_env_def fetchNewestSignature_def)
  have "main_evaluate degenerate_config example_externals ''W'' first_tx_env idle_state =
     (idle_state\<lparr>anchorSig := Some ''S1''\<rparr>,
      [Saved (idle_state\<lparr>lastAlertKey := Some []\<rparr>),
       Dispatched empty_alert (sendDiscordText first_tx_env empty_alert),
       Saved (idle_state\<lparr>anchorSig := Some ''S1''\<rparr>)], None)"
    by (rule evaluate_degenerate[OF _ _ n]) (simp_all add: idle_state_def)
  then show ?thesis
    by (simp add: main_cycle_no_poll[OF p]) (simp add: first_tx_env_def example_env_def)
qed

lemma cycle_second_tx:
  "main_cycle degenerate_config example_externals ''W'' second_tx_env
       (idle_state\<lparr>anchorSig := Some ''S1''\<rparr>) =
     (idle_state\<lparr>anchorSig := Some ''S2''\<rparr>,
      [Fetched ''S2'', Saved (idle_state\<lparr>anchorSig := Some ''S2''\<rparr>),
       Saved (idle_state\<lparr>anchorSig := Some ''S2'', lastAlertKey := Some []\<rparr>),
       Dispatched empty_alert False,
       Saved (idle_state\<lparr>anchorSig := Some ''S2''\<rparr>)], None)"
proof -
  let ?s = "idle_state\<lparr>anchorSig := Some ''S2''\<rparr>"
  have f: "fetchNewSignatures (pollReply second_tx_env) (Some ''S1'') = Inr [''S2'']"
    by (simp add: fetchNewSignatures_def second_tx_env_def)
  have g: "getTransaction second_tx_env = (\<lambda>sig. Inr example_tx)"
    by (simp add: second_tx_env_def example_env_def)
  have i: "ingest degenerate_config example_externals ''W'' second_tx_env [''S2''] ?s
             = (?s, [Fetched ''S2''], None)"
    by (subst ingest_one_example[OF g])
       (simp add: insertOutflow_def js_slice0_def degenerate_config_def idle_state_def)
  have n: "fetchNewestSignature (newestReply second_tx_env) = Inr (Some ''S2'')"
    by (simp add: second_tx_env_def fetchNewestSignature_def)
  have e: "main_evaluate degenerate_config example_externals ''W'' second_tx_env ?s =
     (?s\<lparr>anchorSig := Some ''S2''\<rparr>,
      [Saved (?s\<lparr>lastAlertKey := Some []\<rparr>),
       Dispatched empty_alert (sendDiscordText second_tx_env empty_alert),
       Saved (?s\<lparr>anchorSig := Some ''S2''\<rparr>)], None)"
    by (rule evaluate_degenerate[OF _ _ n]) (simp_all add: idle_state_def)
  show ?thesis
    by (simp add: main_cycle_def f i e del: ingest.simps)
       (simp add: second_tx_env_def example_env_def)
qed

text \<open>
  C9 as stated.  With \<open>WINDOW_OUTFLOWS = 0\<close> and \<open>REQUIRED_MATCH = 0\<close> the empty window
  fires in every cycle and each firing re-anchors the cursor.  After a warm-up that found
  nothing, the first cycle sets the cursor to \<open>S1\<close>, the account's first signature, and
  the second cycle fetches the transaction \<open>S2\<close>.
\<close>

theorem C9_degenerate_config_recovers:
  "warm_up example_env idle_state = Inr (idle_state, [Saved idle_state])
   \<and> anchorSig idle_state = None
   \<and> anchorSig (fst (run degenerate_config example_externals ''W'' [first_tx_env, second_tx_env]
                      idle_state)) = Some ''S2''
   \<and> Fetched ''S2'' \<in> set (snd (run degenerate_config example_externals ''W''
                                  [first_tx_env, second_tx_env] idle_state))"
  by (simp add: cycle_first_tx cycle_second_tx)
     (simp add: warm_up_def idle_state_def example_env_def fetchNewestSignature_def Let_def)

section \<open>The per-transaction cap\<close>

lemma isFiveDigitsTransferLamports_eq:
  "isFiveDigitsTransferLamports n = isFiveDigitsLamports_4dpCut n"
  by (cases n)
     (simp_all add: isFiveDigitsTransferLamports_def isFiveDigitsLamports_4dpCut_def
        scaled_4dpCut_def pos_imp_zdiv_nonneg_iff)

lemma scanTransfers_find:
  "scanTransfers cfg trs r =
     (r \<or> (\<exists>t\<in>set (takeWhile (\<lambda>t. \<not> qualifies cfg t) trs).
              truthy (to t) \<and> num_truthy (lamports t) \<and> inSolRangeLamports cfg (lamports t))
        \<or> find (qualifies cfg) trs \<noteq> None,
      find (qualifies cfg) trs \<noteq> None,
      map_option lineOf (find (qualifies cfg) trs))"
proof (induction trs arbitrary: r)
  case Nil
  show ?case by simp
next
  case (Cons t rest)
  show ?case
    by (auto simp: Cons.IH qualifies_def isFiveDigitsTransferLamports_eq)
qed

lemma scanWindow_lines:
  "scanWindow cfg transfersOf items = (inRangeTx, fiveDigitsTx, lines) \<Longrightarrow>
     lines = List.map_filter
               (\<lambda>item. map_option lineOf (find (qualifies cfg) (transfersOf (signature item)))) items
     \<and> fiveDigitsTx = map signature
         (filter (\<lambda>item. find (qualifies cfg) (transfersOf (signature item)) \<noteq> None) items)"
proof (induction items arbitrary: inRangeTx fiveDigitsTx lines)
  case Nil
  then show ?case by (simp add: List.map_filter_simps)
next
  case (Cons item rest)
  obtain a b c where r: "scanWindow cfg transfersOf rest = (a, b, c)"
    by (cases "scanWindow cfg transfersOf rest") auto
  from Cons.IH[OF r] Cons.prems r show ?case
    by (auto simp: scanTransfers_find List.map_filter_simps split: option.splits)
qed

lemma length_map_filter_find:
  "length (List.map_filter (\<lambda>x. map_option g (f x)) xs) = length (filter (\<lambda>x. f x \<noteq> None) xs)"
  by (induction xs) (auto simp: List.map_filter_simps split: option.splits)

section \<open>When extraction returns\<close>

lemma iter_Inr_iff: "(\<exists>xs. iter v = Inr xs) = iterable v"
  by (cases v) auto

lemma iter_Inl: "iter v = Inl e \<Longrightarrow> \<not> iterable v"
  by (cases v) auto

lemma iter_Inr: "iter v = Inr xs \<Longrightarrow> iterable v"
  by (cases v) auto

lemma truthy_not_nullish: "truthy v \<Longrightarrow> \<not> nullish v"
  by (cases v) auto

lemma innerLoop_Inr_iff:
  "(\<exists>out. innerLoop h items = Inr out) = list_all innerItemOk items"
proof (induction items)
  case Nil
  show ?case by simp
next
  case (Cons item rest)
  show ?case
  proof (cases "innerItemOk item")
    case True
    then obtain ixs where "iter (js_or (get item ''instructions'') (Arr [])) = Inr ixs"
      using iter_Inr_iff by (auto simp: innerItemOk_def listOrAbsent_def)
    with True Cons.IH show ?thesis
      by (auto simp: innerItemOk_def member_def split: sum.splits)
  next
    case False
    then show ?thesis
      by (auto simp: innerItemOk_def listOrAbsent_def member_def dest: iter_Inl iter_Inr
          split: sum.splits)
  qed
qed

lemma parsed_Inr_iff:
  "(\<exists>trs. extractTransfersFromParsed ext tx w = Inr trs) = parsedShapeOk tx"
proof -
  let ?outer = "js_or (opt_member (opt_member (opt_member tx ''transaction'') ''message'')
                           ''instructions'') (Arr [])"
  let ?inner = "js_or (opt_member (opt_member tx ''meta'') ''innerInstructions'') (Arr [])"
  show ?thesis
  proof (cases "iter ?outer")
    case (Inl e)
    then show ?thesis
      by (auto simp: extractTransfersFromParsed_def parsedShapeOk_def listOrAbsent_def
          dest: iter_Inl)
  next
    case outer: (Inr ixs)
    then have o: "iterable ?outer" using iter_Inr_iff by blast
    show ?thesis
    proof (cases "iter ?inner")
      case (Inl e)
      with outer show ?thesis
        by (simp add: extractTransfersFromParsed_def parsedShapeOk_def innerItemsOk_def)
    next
      case (Inr items)
      with outer o innerLoop_Inr_iff[of "handleParsedIx ext w" items] show ?thesis
        by (auto simp: extractTransfersFromParsed_def parsedShapeOk_def innerItemsOk_def
            listOrAbsent_def Let_def split: sum.splits)
    qed
  qed
qed

lemma call0_Inr_iff: "(\<exists>r. call0 v = Inr r) = isMethod v"
  by (cases v) auto

lemma pubkeyToString_Inr_iff: "(\<exists>v. pubkeyToString ext k = Inr v) = accountKeyOk k"
  by (auto simp: pubkeyToString_def accountKeyOk_def opt_member_def call0_Inr_iff
      dest: truthy_not_nullish)

lemma map_err_Inr_iff:
  "(\<exists>ys. map_err f xs = Inr ys) = list_all (\<lambda>x. \<exists>y. f x = Inr y) xs"
  by (induction xs) (auto split: sum.splits)

lemma loadedKeys_Inr_iff: "(\<exists>ks. loadedKeys la f = Inr ks) = loadedOk la f"
  by (auto simp: loadedKeys_def loadedOk_def iter_Inr_iff)

lemma keys_Inr_iff: "(\<exists>ks. getAllAccountKeysFromTx ext tx = Inr ks) = accountKeysOk tx"
proof -
  let ?msg = "opt_member (opt_member tx ''transaction'') ''message''"
  let ?la = "opt_member (opt_member tx ''meta'') ''loadedAddresses''"
  let ?ak = "js_or (opt_member ?msg ''accountKeys'') (Arr [])"
  show ?thesis
  proof (cases "iter ?ak")
    case (Inl e)
    then show ?thesis by (simp add: getAllAccountKeysFromTx_def accountKeysOk_def)
  next
    case (Inr ks)
    have m: "(\<exists>ys. map_err (pubkeyToString ext) ks = Inr ys) = list_all accountKeyOk ks"
      by (simp add: map_err_Inr_iff pubkeyToString_Inr_iff)
    show ?thesis
      using Inr m loadedKeys_Inr_iff[of ?la "''writable''"] loadedKeys_Inr_iff[of ?la "''readonly''"]
      by (auto simp: getAllAccountKeysFromTx_def accountKeysOk_def Let_def split: sum.splits)
  qed
qed

lemma compiled_Inr_iff:
  "(\<exists>d. decodeSystemTransfersOutWithSum ext tx w = Inr d) = compiledShapeOk tx"
proof -
  let ?msg = "opt_member (opt_member tx ''transaction'') ''message''"
  let ?meta = "opt_member tx ''meta''"
  show ?thesis
  proof (cases "\<not> truthy ?msg \<or> \<not> truthy ?meta")
    case True
    then show ?thesis
      by (auto simp: decodeSystemTransfersOutWithSum_def compiledShapeOk_def)
  next
    case False
    show ?thesis
    proof (cases "getAllAccountKeysFromTx ext tx")
      case (Inl e)
      with keys_Inr_iff[of ext tx] False show ?thesis
        by (auto simp: decodeSystemTransfersOutWithSum_def compiledShapeOk_def Let_def)
    next
      case keys: (Inr ks)
      with keys_Inr_iff[of ext tx] have ko: "accountKeysOk tx" by auto
      let ?outer = "js_or (get ?msg ''instructions'') (Arr [])"
      let ?inner = "js_or (get ?meta ''innerInstructions'') (Arr [])"
      show ?thesis
      proof (cases "iter ?outer")
        case (Inl e)
        with keys False show ?thesis
          by (auto simp: decodeSystemTransfersOutWithSum_def compiledShapeOk_def Let_def
              listOrAbsent_def dest: iter_Inl)
      next
        case outer: (Inr ixs)
        then have o: "iterable ?outer" using iter_Inr_iff by blast
        show ?thesis
        proof (cases "iter ?inner")
          case (Inl e)
          with keys outer False show ?thesis
            by (auto simp: decodeSystemTransfersOutWithSum_def compiledShapeOk_def Let_def
                innerItemsOk_def)
        next
          case (Inr items)
          with keys outer o ko False innerLoop_Inr_iff[of "handleCompiledIx ext ks w" items]
          show ?thesis
            by (auto simp: decodeSystemTransfersOutWithSum_def compiledShapeOk_def Let_def
                innerItemsOk_def listOrAbsent_def split: sum.splits)
        qed
      qed
    qed
  qed
qed

text \<open>The exceptions the extractors raise themselves are TypeErrors.\<close>

lemma iter_TypeError: "iter v = Inl e \<Longrightarrow> e = TypeError"
  by (cases v) auto

lemma call0_TypeError: "call0 v = Inl e \<Longrightarrow> e = TypeError"
  by (cases v) auto

lemma innerLoop_TypeError: "innerLoop h items = Inl e \<Longrightarrow> e = TypeError"
  by (induction items)
     (auto simp: member_def dest: iter_TypeError split: sum.splits if_splits)

lemma parsed_TypeError: "extractTransfersFromParsed ext tx w = Inl e \<Longrightarrow> e = TypeError"
  by (auto simp: extractTransfersFromParsed_def Let_def
      dest: iter_TypeError innerLoop_TypeError split: sum.splits)

lemma pubkeyToString_TypeError: "pubkeyToString ext k = Inl e \<Longrightarrow> e = TypeError"
  by (auto simp: pubkeyToString_def dest: call0_TypeError split: if_splits)

lemma map_err_TypeError:
  "(\<And>x e. f x = Inl e \<Longrightarrow> e = TypeError) \<Longrightarrow> map_err f xs = Inl e \<Longrightarrow> e = TypeError"
  by (induction xs) (auto split: sum.splits)

lemma loadedKeys_TypeError: "loadedKeys la f = Inl e \<Longrightarrow> e = TypeError"
  by (auto simp: loadedKeys_def dest: iter_TypeError split: if_splits)

lemma map_pubkeyToString_TypeError:
  "map_err (pubkeyToString ext) ks = Inl e \<Longrightarrow> e = TypeError"
  using pubkeyToString_TypeError by (rule map_err_TypeError)

lemma keys_TypeError: "getAllAccountKeysFromTx ext tx = Inl e \<Longrightarrow> e = TypeError"
  by (auto simp: getAllAccountKeysFromTx_def Let_def
      dest: iter_TypeError loadedKeys_TypeError map_pubkeyToString_TypeError
      split: sum.splits)

lemma compiled_TypeError:
  "decodeSystemTransfersOutWithSum ext tx w = Inl e \<Longrightarrow> e = TypeError"
  by (auto simp: decodeSystemTransfersOutWithSum_def Let_def
      dest: iter_TypeError innerLoop_TypeError keys_TypeError split: sum.splits if_splits)

section \<open>Transfer extraction\<close>

lemma handle_transfer_ix:
  "dest \<noteq> [] \<Longrightarrow>
     handleParsedIx example_externals ''W'' (transfer_ix dest) = Some (transfer_to dest)"
  by (simp add: handleParsedIx_def transfer_ix_def js_or_def example_externals_def
      transfer_to_def Let_def)

lemma extract_example:
  "extractTransfersFromParsed example_externals example_parsed_tx ''W''
     = Inr [transfer_to ''D1'', transfer_to ''D2'']"
  by (simp add: extractTransfersFromParsed_def example_parsed_tx_def opt_member_def js_or_def
      handle_transfer_ix Let_def)

lemma extract_malformed:
  "extractTransfersFromParsed example_externals malformed_tx ''W'' = Inl TypeError"
  by (simp add: extractTransfersFromParsed_def malformed_tx_def opt_member_def js_or_def)

lemma decode_malformed:
  "decodeSystemTransfersOutWithSum example_externals malformed_tx ''W'' = Inl TypeError"
proof -
  have "getAllAccountKeysFromTx example_externals malformed_tx = Inr []"
    by (simp add: getAllAccountKeysFromTx_def malformed_tx_def opt_member_def js_or_def
        loadedKeys_def)
  then show ?thesis
    by (simp add: decodeSystemTransfersOutWithSum_def)
       (simp add: malformed_tx_def opt_member_def js_or_def)
qed

text \<open>
  C7 as stated.  A transaction whose \<^verbatim>\<open>instructions\<close> field is the number 5 makes both
  extractors raise: the value is truthy, so \<^verbatim>\<open>|| []\<close> keeps it, and the loop over it
  throws a TypeError that neither function catches.
\<close>

theorem C7_non_list_instructions_raise:
  "extractTransfersFromParsed example_externals malformed_tx ''W'' = Inl TypeError
   \<and> decodeSystemTransfersOutWithSum example_externals malformed_tx ''W'' = Inl TypeError"
  by (simp add: extract_malformed decode_malformed)

lemma shaped_parsed: "parsedShapeOk (shaped_tx keys ixs inner)"
  by (simp add: parsedShapeOk_def shaped_tx_def opt_member_def listOrAbsent_def js_or_def
      innerItemsOk_def innerItemOk_def list_all_iff)

lemma shaped_compiled: "compiledShapeOk (shaped_tx keys ixs inner)"
  by (simp add: compiledShapeOk_def shaped_tx_def opt_member_def listOrAbsent_def js_or_def
      innerItemsOk_def innerItemOk_def accountKeysOk_def accountKeyOk_def loadedOk_def
      list_all_iff)

text \<open>
  C7, amended.  Each extractor returns a list exactly on the transactions of the shape
  given by \<open>parsedShapeOk\<close> and \<open>compiledShapeOk\<close>: every value it loops over is absent,
  falsy, an array or a string, no inner item is null or undefined, and (fallback path,
  when message and meta are present) every account key can be printed.  That covers
  undefined and null transactions, missing message and meta, absent instruction arrays,
  and every transaction whose containers are arrays, whatever the instructions in them
  are and whatever the decoders throw.  On every other transaction the extractor raises a
  TypeError.
\<close>

theorem C7_extraction_returns:
  "(\<exists>trs. extractTransfersFromParsed ext tx w = Inr trs) = parsedShapeOk tx
   \<and> (\<exists>d. decodeSystemTransfersOutWithSum ext tx w = Inr d) = compiledShapeOk tx
   \<and> extractTransfersFromParsed ext Undefined w = Inr []
   \<and> extractTransfersFromParsed ext Null w = Inr []
   \<and> extractTransfersFromParsed ext (Obj []) w = Inr []
   \<and> decodeSystemTransfersOutWithSum ext Undefined w = Inr (withSum [])
   \<and> decodeSystemTransfersOutWithSum ext Null w = Inr (withSum [])
   \<and> decodeSystemTransfersOutWithSum ext (Obj []) w = Inr (withSum [])
   \<and> (\<exists>trs. extractTransfersFromParsed ext (shaped_tx keys ixs inner) w = Inr trs)
   \<and> (\<exists>d. decodeSystemTransfersOutWithSum ext (shaped_tx keys ixs inner) w = Inr d)
   \<and> (\<not> parsedShapeOk tx \<longrightarrow> extractTransfersFromParsed ext tx w = Inl TypeError)
   \<and> (\<not> compiledShapeOk tx \<longrightarrow> decodeSystemTransfersOutWithSum ext tx w = Inl TypeError)"
proof -
  have c: "\<not> parsedShapeOk tx \<longrightarrow> extractTransfersFromParsed ext tx w = Inl TypeError"
    using parsed_Inr_iff[of ext tx w] parsed_TypeError[of ext tx w]
    by (cases "extractTransfersFromParsed ext tx w") auto
  have d: "\<not> compiledShapeOk tx \<longrightarrow> decodeSystemTransfersOutWithSum ext tx w = Inl TypeError"
    using compiled_Inr_iff[of ext tx w] compiled_TypeError[of ext tx w]
    by (cases "decodeSystemTransfersOutWithSum ext tx w") auto
  have a: "extractTransfersFromParsed ext Undefined w = Inr []"
    "extractTransfersFromParsed ext Null w = Inr []"
    "extractTransfersFromParsed ext (Obj []) w = Inr []"
    by (simp_all add: extractTransfersFromParsed_def opt_member_def js_or_def)
  have b: "decodeSystemTransfersOutWithSum ext Undefined w = Inr (withSum [])"
    "decodeSystemTransfersOutWithSum ext Null w = Inr (withSum [])"
    "decodeSystemTransfersOutWithSum ext (Obj []) w = Inr (withSum [])"
    by (simp_all add: decodeSystemTransfersOutWithSum_def opt_member_def)
  show ?thesis
    using a b c d shaped_parsed[of keys ixs inner] shaped_compiled[of keys ixs inner]
    by (simp add: parsed_Inr_iff compiled_Inr_iff)
qed

text \<open>
  Witness for C7: the example transactions have the shape and are extracted; the
  malformed one has not.
\<close>

theorem C7_extraction_returns_witness:
  "parsedShapeOk example_parsed_tx
   \<and> extractTransfersFromParsed example_externals example_parsed_tx ''W''
       = Inr [transfer_to ''D1'', transfer_to ''D2'']
   \<and> compiledShapeOk example_tx
   \<and> decodeSystemTransfersOutWithSum example_externals example_tx ''W'' = Inr (withSum [])
   \<and> \<not> parsedShapeOk malformed_tx \<and> \<not> compiledShapeOk malformed_tx"
proof -
  have p: "parsedShapeOk example_parsed_tx"
    using C7_extraction_returns [of example_externals example_parsed_tx "''W''"] extract_example
    by simp
  have c: "compiledShapeOk example_tx"
    using C7_extraction_returns [of example_externals example_tx "''W''"] decode_example
    by simp
  have m: "\<not> parsedShapeOk malformed_tx \<and> \<not> compiledShapeOk malformed_tx"
    using C7_extraction_returns [of example_externals malformed_tx "''W''"]
      extract_malformed decode_malformed
    by simp
  show ?thesis using p c m extract_example decode_example by simp
qed

section \<open>Matched lines\<close>

lemma qualifies_transfer_to:
  "dest \<noteq> [] \<Longrightarrow> qualifies example_config (transfer_to dest)"
  by (simp add: qualifies_def transfer_to_def inSolRangeLamports_def example_config_def
      LAMPORTS_PER_SOL_def isFiveDigitsLamports_4dpCut_def scaled_4dpCut_def)

lemma lineOf_transfer_to:
  "lineOf (transfer_to dest) = \<lparr>sol4 = ''1.0000'', destWallet = Str dest\<rparr>"
  by (simp add: lineOf_def transfer_to_def lamportsToSol4String_def scaled_4dpCut_def
      padStart_def dec_digits.simps eval_nat_numeral)

lemma transfersForMatch_parsed:
  "transfersForMatch example_externals ''W'' parsed_env sig
     = [transfer_to ''D1'', transfer_to ''D2'']"
proof -
  have "truthy example_parsed_tx" by (simp add: example_parsed_tx_def)
  then show ?thesis
    by (simp add: transfersForMatch_def parsed_env_def extract_example)
qed

lemma alert_parsed:
  "buildAlert example_config example_externals ''W'' parsed_env (outflows example_state)
     = two_line_alert"
  by (simp add: buildAlert_def example_state_def matches_example classify_two_sol
      transfersForMatch_parsed matchedLinesOf_def qualifies_transfer_to lineOf_transfer_to
      setOrder_def js_slice0_def two_line_alert_def)
     (simp add: example_config_def)

lemma evaluate_parsed:
  "main_evaluate example_config example_externals ''W'' parsed_env example_state =
     (idle_state,
      [Saved (example_state\<lparr>lastAlertKey := Some ''B''\<rparr>), Dispatched two_line_alert False,
       Saved idle_state], None)"
  using main_evaluate_trigger[OF triggers_example, of example_externals "''W''" parsed_env]
  by (simp add: alert_parsed Let_def)
     (simp add: parsed_env_def example_env_def fetchNewestSignature_def example_state_def
      idle_state_def makeAlertKey_def)

text \<open>
  C5 as stated.  In index.js the window holds one transaction \<open>B\<close>; its structured form
  has two transfers that each pass the range and the digit-pattern check.  The alert
  counts the transaction once but lists both transfers among the matched lines.
\<close>

theorem C5_index_lists_every_transfer:
  "map signature (outflows example_state) = [''B'']
   \<and> transfersForMatch example_externals ''W'' parsed_env ''B''
       = [transfer_to ''D1'', transfer_to ''D2'']
   \<and> qualifies example_config (transfer_to ''D1'')
   \<and> qualifies example_config (transfer_to ''D2'')
   \<and> main_evaluate example_config example_externals ''W'' parsed_env example_state =
       (idle_state,
        [Saved (example_state\<lparr>lastAlertKey := Some ''B''\<rparr>), Dispatched two_line_alert False,
         Saved idle_state], None)
   \<and> fiveDigitsCount two_line_alert = 1
   \<and> length (matchedLines two_line_alert) = 2"
  by (simp add: transfersForMatch_parsed qualifies_transfer_to evaluate_parsed)
     (simp add: example_state_def two_line_alert_def)

text \<open>
  C5, amended.  In the per-destination variant every window transaction contributes at
  most one match: the loop over its transfers stops at the first one, in extraction
  order, that passes the range and the digit-pattern check, so the tally
  \<^verbatim>\<open>fiveDigitsTx\<close> names exactly the transactions that have such a transfer, once each,
  and \<^verbatim>\<open>matchedLines\<close> holds exactly the line of that first transfer for each of them.
  In index.js the tally counts each window transaction at most once as well, classified
  on its summed outflow, but the matched lines are all qualifying transfers of every
  matched transaction.
\<close>

theorem C5_per_transaction_cap:
  "snd (snd (scanTransfers cfg trs r)) = map_option lineOf (find (qualifies cfg) trs)
   \<and> fst (snd (scanTransfers cfg trs r)) = (find (qualifies cfg) trs \<noteq> None)
   \<and> (scanWindow cfg transfersOf items = (inRangeTx, fiveDigitsTx, lines) \<longrightarrow>
        lines = List.map_filter
                  (\<lambda>item. map_option lineOf (find (qualifies cfg) (transfersOf (signature item))))
                  items
        \<and> fiveDigitsTx = map signature
            (filter (\<lambda>item. find (qualifies cfg) (transfersOf (signature item)) \<noteq> None) items)
        \<and> length lines = length fiveDigitsTx
        \<and> length fiveDigitsTx \<le> length items)
   \<and> matchedLines (buildAlert cfg ext w en window) =
        concat (map (\<lambda>m. map lineOf (filter (qualifies cfg)
                                        (transfersForMatch ext w en (signature m))))
                    (matchesOf cfg window))
   \<and> fiveDigitsCount (buildAlert cfg ext w en window) = length (matchesOf cfg window)
   \<and> length (matchesOf cfg window) \<le> length window"
proof -
  have w: "scanWindow cfg transfersOf items = (inRangeTx, fiveDigitsTx, lines) \<longrightarrow>
        lines = List.map_filter
                  (\<lambda>item. map_option lineOf (find (qualifies cfg) (transfersOf (signature item))))
                  items
        \<and> fiveDigitsTx = map signature
            (filter (\<lambda>item. find (qualifies cfg) (transfersOf (signature item)) \<noteq> None) items)
        \<and> length lines = length fiveDigitsTx
        \<and> length fiveDigitsTx \<le> length items"
  proof
    assume "scanWindow cfg transfersOf items = (inRangeTx, fiveDigitsTx, lines)"
    from scanWindow_lines[OF this] show "lines = List.map_filter
                  (\<lambda>item. map_option lineOf (find (qualifies cfg) (transfersOf (signature item))))
                  items
        \<and> fiveDigitsTx = map signature
            (filter (\<lambda>item. find (qualifies cfg) (transfersOf (signature item)) \<noteq> None) items)
        \<and> length lines = length fiveDigitsTx
        \<and> length fiveDigitsTx \<le> length items"
      by (simp add: length_map_filter_find)
  qed
  have i: "length (matchesOf cfg window) \<le> length window"
    by (simp add: matchesOf_def consideredOf_def le_trans[OF length_filter_le length_filter_le])
  show ?thesis
    using w i by (simp add: scanTransfers_find buildAlert_def matchedLinesOf_def Let_def)
qed

text \<open>
  Witness for C5: a window of one transaction with two qualifying transfers yields one
  tally entry and the line of the first transfer only.
\<close>

theorem C5_per_transaction_cap_witness:
  "scanWindow example_config (\<lambda>sig. [transfer_to ''D1'', transfer_to ''D2''])
       [\<lparr>signature = ''B'', ts = 0\<rparr>]
     = ([''B''], [''B''], [\<lparr>sol4 = ''1.0000'', destWallet = Str ''D1''\<rparr>])
   \<and> find (qualifies example_config) [transfer_to ''D1'', transfer_to ''D2'']
       = Some (transfer_to ''D1'')
   \<and> length [\<lparr>sol4 = ''1.0000'', destWallet = Str ''D1''\<rparr>] = length [''B'']"
proof -
  have f: "find (qualifies example_config) [transfer_to ''D1'', transfer_to ''D2'']
             = Some (transfer_to ''D1'')"
    by (simp add: qualifies_transfer_to)
  have s: "scanWindow example_config (\<lambda>sig. [transfer_to ''D1'', transfer_to ''D2''])
       [\<lparr>signature = ''B'', ts = 0\<rparr>]
     = ([''B''], [''B''], [\<lparr>sol4 = ''1.0000'', destWallet = Str ''D1''\<rparr>])"
    using qualifies_transfer_to[of "''D1''"]
    by (simp add: qualifies_def isFiveDigitsTransferLamports_eq lineOf_transfer_to)
  show ?thesis
    using f s
      C5_per_transaction_cap [of example_config "[transfer_to ''D1'', transfer_to ''D2'']" False
        "\<lambda>sig. [transfer_to ''D1'', transfer_to ''D2'']" "[\<lparr>signature = ''B'', ts = 0\<rparr>]"
        "[''B'']" "[''B'']" "[\<lparr>sol4 = ''1.0000'', destWallet = Str ''D1''\<rparr>]"]
    by simp
qed

end
